theory Spec2Isabelle
  imports Complex_Main
begin

section \<open>Conventions of the embedding\<close>

text \<open>
  The marketplace client is TypeScript calling a managed backend. The embedding keeps the
  client code and makes the backend explicit:
  \<^item> a JavaScript \<open>number\<close> is an exact rational (\<open>rat\<close>): whole quantities and decimal
    prices alike. The rounding of IEEE doubles, \<open>NaN\<close> and the infinities are outside
    the model;
  \<^item> an awaited backend call gives a \<open>reply\<close>: either the promise resolves to the
    client library's pair \<open>{data, error}\<close>, or it rejects and the \<open>await\<close> throws;
  \<^item> the tables the code writes are lists of rows inside a \<open>db\<close> record that every
    operation takes and returns;
  \<^item> a thrown \<open>Error\<close> is the \<open>Inl\<close> of a sum type;
  \<^item> console logging and toast texts are left out, except where a toast is the only
    signal of a rejection.
  Record fields carry a short prefix of their record (\<open>ci_quantity\<close> for
  \<open>CartItem.quantity\<close>), since HOL has one name space for all fields.
\<close>

type_synonym number = rat

datatype 'a reply =
    Resolved "'a option" "string option"
  | Rejected string

text \<open>JavaScript truthiness of a string that may be \<open>null\<close> or \<open>undefined\<close>.\<close>

fun truthy :: "string option \<Rightarrow> bool" where
  "truthy None = False"
| "truthy (Some s) = (s \<noteq> [])"

text \<open>\<open>x || 0\<close> on a number: \<open>0\<close> is the only falsy rational.\<close>

definition or_zero :: "number \<Rightarrow> number" where
  "or_zero x = (if x = 0 then 0 else x)"

text \<open>\<open>Array.prototype.findIndex\<close>: the first position that satisfies the predicate
  (\<open>None\<close> for the source's \<open>-1\<close>).\<close>

fun findIndex :: "('a \<Rightarrow> bool) \<Rightarrow> 'a list \<Rightarrow> nat option" where
  "findIndex P [] = None"
| "findIndex P (x # xs) =
     (if P x then Some 0 else map_option Suc (findIndex P xs))"

section \<open>The cart store (Cart.tsx)\<close>

record CartItem =
  ci_id :: string
  ci_name :: string
  ci_price :: number
  ci_quantity :: number
  ci_image :: string
  ci_seller :: string
  ci_selected :: bool

text \<open>The argument of \<open>addItem\<close>: a cart item without \<open>quantity\<close> and \<open>selected\<close>.\<close>

record NewItem =
  ni_id :: string
  ni_name :: string
  ni_price :: number
  ni_image :: string
  ni_seller :: string

text \<open>The row \<open>addItem\<close> selects from \<open>products\<close>.\<close>

record ProductData =
  pd_stock_quantity :: number
  pd_is_available :: bool
  pd_seller_id :: "string option"
  pd_name :: string

record CartState =
  items :: "CartItem list"
  isCartOpen :: bool

definition addItem :: "NewItem \<Rightarrow> ProductData reply \<Rightarrow> CartState \<Rightarrow> CartState" where
  "addItem product r st =
     (case r of
        Rejected e \<Rightarrow> st
      | Resolved productData error \<Rightarrow>
          if error \<noteq> None then st
          else (case productData of
                  None \<Rightarrow> st
                | Some pd \<Rightarrow>
                    if \<not> pd_is_available pd \<or> pd_stock_quantity pd \<le> 0 then st
                    else (case pd_seller_id pd of
                            None \<Rightarrow> st
                          | Some seller_id \<Rightarrow>
                              if seller_id = [] then st
                              else st\<lparr>items :=
                                (case findIndex (\<lambda>item. ci_id item = ni_id product) (items st) of
                                   Some existingItemIndex \<Rightarrow>
                                     (let newQuantity =
                                            ci_quantity (items st ! existingItemIndex) + 1
                                      in if newQuantity > pd_stock_quantity pd then items st
                                         else (items st)[existingItemIndex :=
                                                (items st ! existingItemIndex)
                                                  \<lparr>ci_quantity := newQuantity\<rparr>])
                                 | None \<Rightarrow>
                                     items st @
                                       [\<lparr>ci_id = ni_id product, ci_name = ni_name product,
                                         ci_price = ni_price product, ci_quantity = 1,
                                         ci_image = ni_image product,
                                         ci_seller = seller_id,
                                         ci_selected = False\<rparr>]),
                                isCartOpen := True\<rparr>)))"

definition removeItem :: "string \<Rightarrow> CartState \<Rightarrow> CartState" where
  "removeItem i st = st\<lparr>items := filter (\<lambda>item. ci_id item \<noteq> i) (items st)\<rparr>"

text \<open>\<open>updateQuantity\<close> selects only \<open>stock_quantity\<close>, so its reply carries a number.\<close>

definition updateQuantity :: "string \<Rightarrow> number \<Rightarrow> number reply \<Rightarrow> CartState \<Rightarrow> CartState" where
  "updateQuantity i quantity r st =
     (if quantity \<le> 0 then removeItem i st
      else (case r of
              Rejected e \<Rightarrow> st
            | Resolved productData error \<Rightarrow>
                if error \<noteq> None then st
                else (case productData of
                        Some stock_quantity \<Rightarrow>
                          if quantity > stock_quantity
                          then st\<lparr>items := map (\<lambda>item. if ci_id item = i
                                   then item\<lparr>ci_quantity := stock_quantity\<rparr> else item) (items st)\<rparr>
                          else st\<lparr>items := map (\<lambda>item. if ci_id item = i
                                   then item\<lparr>ci_quantity := quantity\<rparr> else item) (items st)\<rparr>
                      | None \<Rightarrow>
                          st\<lparr>items := map (\<lambda>item. if ci_id item = i
                                   then item\<lparr>ci_quantity := quantity\<rparr> else item) (items st)\<rparr>)))"

definition toggleItemSelection :: "string \<Rightarrow> CartState \<Rightarrow> CartState" where
  "toggleItemSelection i st =
     st\<lparr>items := map (\<lambda>item. if ci_id item = i
                              then item\<lparr>ci_selected := \<not> ci_selected item\<rparr> else item) (items st)\<rparr>"

definition toggleAllSelection :: "bool \<Rightarrow> CartState \<Rightarrow> CartState" where
  "toggleAllSelection selected st =
     st\<lparr>items := map (\<lambda>item. item\<lparr>ci_selected := selected\<rparr>) (items st)\<rparr>"

definition clearCart :: "CartState \<Rightarrow> CartState" where
  "clearCart st = st\<lparr>items := []\<rparr>"

text \<open>\<open>items.reduce((total, item) => total + item.price * item.quantity, 0)\<close>.\<close>

definition subtotal :: "CartItem list \<Rightarrow> number" where
  "subtotal xs = foldl (\<lambda>total item. total + ci_price item * ci_quantity item) 0 xs"

definition selectedItems :: "CartState \<Rightarrow> CartItem list" where
  "selectedItems st = filter ci_selected (items st)"

definition selectedItemsTotal :: "CartState \<Rightarrow> number" where
  "selectedItemsTotal st = subtotal (selectedItems st)"

text \<open>The invariant of the data model: every line of the cart has a quantity of at least 1.\<close>

definition quantities_positive :: "CartItem list \<Rightarrow> bool" where
  "quantities_positive xs = list_all (\<lambda>item. 1 \<le> ci_quantity item) xs"

section \<open>Tables and the backend\<close>

datatype OrderStatus =
  Pending | Payment_approved | Processing | Shipped | Delivered | Cancelled

text \<open>A calendar day, counted in days since 1970-01-01 (a Thursday).\<close>

type_synonym date = int

record OrderRow =
  o_id :: string
  o_buyer_id :: string
  o_seller_id :: "string option"
  o_status :: OrderStatus
  o_total_amount :: number
  o_created_at :: string
  o_updated_at :: "string option"
  o_payment_method :: string
  o_payment_status :: "string option"
  o_shipping_address :: string
  o_billing_address :: string
  o_estimated_delivery :: "date option"
  o_tracking_number :: "string option"
  o_tracking_url :: "string option"
  o_delivery_option :: "string option"
  o_payment_intent_id :: "string option"

record OrderItem =
  oi_order_id :: string
  oi_product_id :: string
  oi_quantity :: number
  oi_unit_price :: number
  oi_total_price :: number

record InventoryLog =
  il_product_id :: string
  il_previous_quantity :: number
  il_new_quantity :: number
  il_change_quantity :: number
  il_reason :: string
  il_created_at :: string
  il_created_by :: "string option"

text \<open>The remote procedures the order writer invokes, with the arguments it passes.\<close>

datatype RpcCall =
    Low_stock "string option" string string number number string
      \<comment> \<open>\<open>create_user_notification\<close>: \<open>p_user_id\<close>, product name, product id,
          current stock, threshold, order id\<close>
  | New_order string string
      \<comment> \<open>\<open>create_order_notification\<close>: \<open>p_user_id\<close>, \<open>p_order_id\<close>\<close>

record Profile =
  pr_id :: string
  pr_user_id :: "string option"

record SellerCustomer =
  sc_id :: string
  sc_seller_id :: string
  sc_customer_id :: string
  sc_total_orders :: number
  sc_total_spent :: number
  sc_last_purchase_date :: string
  sc_status :: string

record db =
  orders :: "OrderRow list"
  order_items :: "OrderItem list"
  products :: "string \<rightharpoonup> ProductData"
  inventory_logs :: "InventoryLog list"
  rpc_calls :: "RpcCall list"
  profiles :: "Profile list"
  seller_customers :: "SellerCustomer list"

text \<open>
  How the backend answers one call: it carries the call out, it answers with an error
  object, or the request itself fails and the promise rejects.
\<close>

datatype outcome = Succeeds | Fails string | Throws string

text \<open>
  The backend as the client meets it in one run: the signed-in user that
  \<open>auth.getUser()\<close> reports, the ids it assigns to new rows, and how it answers each
  kind of call (per product id for the calls of the inventory loop). What a successful
  read returns and what a successful write changes is taken from the tables.
\<close>

record backend =
  be_getUser :: "string reply"
  be_new_order_id :: string
  be_insert_order :: outcome
  be_insert_order_items :: outcome
  be_select_product :: "string \<Rightarrow> outcome"
  be_update_stock :: "string \<Rightarrow> outcome"
  be_insert_log :: "string \<Rightarrow> outcome"
  be_select_product_name :: "string \<Rightarrow> outcome"
  be_update_order :: outcome
  be_select_profile :: outcome
  be_select_relationship :: outcome
  be_write_relationship :: outcome
  be_new_relationship_id :: string

text \<open>\<open>.single()\<close>: the row when the query matches exactly one, an error otherwise.\<close>

definition single :: "'a list \<Rightarrow> 'a reply" where
  "single rows =
     (case rows of
        [row] \<Rightarrow> Resolved (Some row) None
      | _ \<Rightarrow> Resolved None (Some ''JSON object requested, multiple (or no) rows returned''))"

definition answer :: "outcome \<Rightarrow> 'a reply \<Rightarrow> 'a reply" where
  "answer oc r =
     (case oc of Succeeds \<Rightarrow> r | Fails e \<Rightarrow> Resolved None (Some e) | Throws e \<Rightarrow> Rejected e)"

text \<open>A write is applied exactly when the backend carries the call out.\<close>

definition applied :: "outcome \<Rightarrow> db \<Rightarrow> db \<Rightarrow> db" where
  "applied oc written unwritten = (if oc = Succeeds then written else unwritten)"

definition select_product :: "backend \<Rightarrow> db \<Rightarrow> string \<Rightarrow> ProductData reply" where
  "select_product be d i =
     answer (be_select_product be i) (single (case products d i of None \<Rightarrow> [] | Some p \<Rightarrow> [p]))"

definition select_product_name :: "backend \<Rightarrow> db \<Rightarrow> string \<Rightarrow> string reply" where
  "select_product_name be d i =
     answer (be_select_product_name be i)
       (single (case products d i of None \<Rightarrow> [] | Some p \<Rightarrow> [pd_name p]))"

definition update_stock :: "backend \<Rightarrow> string \<Rightarrow> number \<Rightarrow> db \<Rightarrow> unit reply \<times> db" where
  "update_stock be i q d =
     (answer (be_update_stock be i) (Resolved None None),
      applied (be_update_stock be i)
        (d\<lparr>products := (case products d i of
                            None \<Rightarrow> products d
                          | Some p \<Rightarrow> (products d)(i \<mapsto> p\<lparr>pd_stock_quantity := q\<rparr>))\<rparr>) d)"

definition insert_log :: "backend \<Rightarrow> InventoryLog \<Rightarrow> db \<Rightarrow> unit reply \<times> db" where
  "insert_log be l d =
     (answer (be_insert_log be (il_product_id l)) (Resolved None None),
      applied (be_insert_log be (il_product_id l))
        (d\<lparr>inventory_logs := inventory_logs d @ [l]\<rparr>) d)"

definition insert_order_items :: "backend \<Rightarrow> OrderItem list \<Rightarrow> db \<Rightarrow> unit reply \<times> db" where
  "insert_order_items be rows d =
     (answer (be_insert_order_items be) (Resolved None None),
      applied (be_insert_order_items be) (d\<lparr>order_items := order_items d @ rows\<rparr>) d)"

text \<open>Inserting an order: the backend assigns the id and answers with the stored row.\<close>

definition insert_order :: "backend \<Rightarrow> OrderRow \<Rightarrow> db \<Rightarrow> OrderRow reply \<times> db" where
  "insert_order be row d =
     (answer (be_insert_order be) (Resolved (Some (row\<lparr>o_id := be_new_order_id be\<rparr>)) None),
      applied (be_insert_order be)
        (d\<lparr>orders := orders d @ [row\<lparr>o_id := be_new_order_id be\<rparr>]\<rparr>) d)"

text \<open>A remote procedure call is recorded as requested, whatever the backend then does.\<close>

definition rpc :: "RpcCall \<Rightarrow> db \<Rightarrow> db" where
  "rpc c d = d\<lparr>rpc_calls := rpc_calls d @ [c]\<rparr>"

section \<open>The order service (\<open>createOrder\<close> of orderService.ts)\<close>

text \<open>
  The fields of the \<open>Partial<Order>\<close> argument that \<open>createOrder\<close> reads. It overwrites
  \<open>buyer_id\<close>, \<open>status\<close>, \<open>created_at\<close> and \<open>updated_at\<close> before reading them.
\<close>

record OrderData =
  od_seller_id :: "string option"
  od_total_amount :: "number option"
  od_payment_method :: "string option"
  od_payment_status :: "string option"
  od_shipping_address :: "string option"
  od_billing_address :: "string option"
  od_estimated_delivery :: "date option"
  od_tracking_number :: "string option"
  od_tracking_url :: "string option"
  od_delivery_option :: "string option"
  od_payment_intent_id :: "string option"

text \<open>Lines 522 to 584: defaults, required fields, payment method, the row to insert.\<close>

definition validatedOrderData :: "string \<Rightarrow> string \<Rightarrow> OrderData \<Rightarrow> string + OrderRow" where
  "validatedOrderData user_id now orderData =
     (let payment_status =
            (if truthy (od_payment_status orderData) then od_payment_status orderData
             else Some ''pending'');
          billing_address =
            (if \<not> truthy (od_billing_address orderData) \<and> truthy (od_shipping_address orderData)
             then od_shipping_address orderData else od_billing_address orderData)
      in if \<not> truthy (od_payment_method orderData) then Inl ''Payment method is required''
         else if \<not> truthy (od_shipping_address orderData) then Inl ''Shipping address is required''
         else if \<not> truthy billing_address then Inl ''Billing address is required''
         else Inr
           \<lparr>o_id = [],
            o_buyer_id = user_id,
            o_seller_id = od_seller_id orderData,
            o_status = Pending,
            o_total_amount = (case od_total_amount orderData of None \<Rightarrow> 0 | Some t \<Rightarrow> or_zero t),
            o_created_at = now,
            o_updated_at = Some now,
            o_payment_method =
              (if od_payment_method orderData = Some ''stripe'' then ''Credit Card''
               else (case od_payment_method orderData of None \<Rightarrow> [] | Some m \<Rightarrow> m)),
            o_payment_status =
              (if od_payment_method orderData = Some ''stripe''
               then (if payment_status = Some ''succeeded'' then Some ''paid'' else payment_status)
               else if od_payment_method orderData = Some ''cod'' then Some ''pending''
               else payment_status),
            o_shipping_address =
              (case od_shipping_address orderData of None \<Rightarrow> [] | Some a \<Rightarrow> a),
            o_billing_address = (case billing_address of None \<Rightarrow> [] | Some a \<Rightarrow> a),
            o_estimated_delivery = od_estimated_delivery orderData,
            o_tracking_number = od_tracking_number orderData,
            o_tracking_url = od_tracking_url orderData,
            o_delivery_option = od_delivery_option orderData,
            o_payment_intent_id = od_payment_intent_id orderData\<rparr>)"

text \<open>Lines 604 to 610: one order item per cart item.\<close>

definition orderItemsFor :: "string \<Rightarrow> CartItem list \<Rightarrow> OrderItem list" where
  "orderItemsFor order_id cartItems =
     map (\<lambda>item. \<lparr>oi_order_id = order_id, oi_product_id = ci_id item,
                   oi_quantity = ci_quantity item, oi_unit_price = ci_price item,
                   oi_total_price = ci_price item * ci_quantity item\<rparr>) cartItems"

definition threshold :: number where
  "threshold = 5"

text \<open>
  Lines 623 to 702, the body of the loop over the cart items. Every early \<open>continue\<close>
  and the \<open>catch\<close> around the body leave the tables as they are at that point.
\<close>

definition decrementStock :: "backend \<Rightarrow> string \<Rightarrow> string \<Rightarrow> CartItem \<Rightarrow> db \<Rightarrow> db" where
  "decrementStock be order_id now item d =
     (case select_product be d (ci_id item) of
        Rejected e \<Rightarrow> d
      | Resolved product productError \<Rightarrow>
          if productError \<noteq> None then d
          else (case product of
                  None \<Rightarrow> d
                | Some product \<Rightarrow>
                    (let previousQuantity = or_zero (pd_stock_quantity product);
                         newQuantity = max 0 (previousQuantity - ci_quantity item)
                     in case update_stock be (ci_id item) newQuantity d of
                          (Rejected e, d1) \<Rightarrow> d1
                        | (Resolved u updateError, d1) \<Rightarrow>
                            if updateError \<noteq> None then d1
                            else (case insert_log be
                                         \<lparr>il_product_id = ci_id item,
                                          il_previous_quantity = previousQuantity,
                                          il_new_quantity = newQuantity,
                                          il_change_quantity = - ci_quantity item,
                                          il_reason = ''Order fulfillment (Order #''
                                             @ take 8 order_id @ '')'',
                                          il_created_at = now,
                                          il_created_by = pd_seller_id product\<rparr> d1 of
                                    (Rejected e, d2) \<Rightarrow> d2
                                  | (Resolved l logError, d2) \<Rightarrow>
                                      (case select_product_name be d2 (ci_id item) of
                                         Rejected e \<Rightarrow> d2
                                       | Resolved productDetails detailsError \<Rightarrow>
                                           (case productDetails of
                                              None \<Rightarrow> d2
                                            | Some name \<Rightarrow>
                                                if newQuantity > 0 \<and> newQuantity \<le> threshold
                                                then rpc (Low_stock (pd_seller_id product) name
                                                       (ci_id item) newQuantity threshold order_id) d2
                                                else d2))))))"

text \<open>The \<open>for ... of\<close> loop of lines 622 to 703.\<close>

fun updateInventory :: "backend \<Rightarrow> string \<Rightarrow> string \<Rightarrow> CartItem list \<Rightarrow> db \<Rightarrow> db" where
  "updateInventory be order_id now [] d = d"
| "updateInventory be order_id now (item # rest) d =
     updateInventory be order_id now rest (decrementStock be order_id now item d)"

text \<open>\<open>createNewOrderNotification\<close> catches whatever the call throws and its result is
  dropped by \<open>createOrder\<close>, so only the request remains.\<close>

definition createNewOrderNotification :: "string \<Rightarrow> string \<Rightarrow> db \<Rightarrow> db" where
  "createNewOrderNotification sellerId orderId d = rpc (New_order sellerId orderId) d"

text \<open>Lines 706 to 709: \<open>if (orderData.seller_id) await createNewOrderNotification(...)\<close>.\<close>

definition notifySeller :: "OrderData \<Rightarrow> string \<Rightarrow> db \<Rightarrow> db" where
  "notifySeller orderData order_id d =
     (case od_seller_id orderData of
        None \<Rightarrow> d
      | Some seller \<Rightarrow> if seller = [] then d else createNewOrderNotification seller order_id d)"

text \<open>
  \<open>createOrder\<close>: \<open>Inr None\<close> is the source's \<open>return null\<close>, \<open>Inr (Some id)\<close> the new
  order's id, \<open>Inl\<close> the error the function throws again from its \<open>catch\<close>.
\<close>

definition createOrder_orderService ::
  "backend \<Rightarrow> string \<Rightarrow> OrderData \<Rightarrow> CartItem list option \<Rightarrow> db \<Rightarrow> (string + string option) \<times> db" where
  "createOrder_orderService be now orderData cartItems d =
     (case be_getUser be of
        Rejected e \<Rightarrow> (Inl e, d)
      | Resolved user userError \<Rightarrow>
          (case user of
             None \<Rightarrow> (Inr None, d)
           | Some user_id \<Rightarrow>
               (case validatedOrderData user_id now orderData of
                  Inl e \<Rightarrow> (Inl e, d)
                | Inr row \<Rightarrow>
                    (case insert_order be row d of
                       (Rejected e, d1) \<Rightarrow> (Inl e, d1)
                     | (Resolved data error, d1) \<Rightarrow>
                         (case error of
                            Some message \<Rightarrow> (Inl (''Failed to create order: '' @ message), d1)
                          | None \<Rightarrow>
                              (case data of
                                 None \<Rightarrow> (Inl ''Failed to create order: No ID returned'', d1)
                               | Some stored \<Rightarrow>
                                   if o_id stored = []
                                   then (Inl ''Failed to create order: No ID returned'', d1)
                                   else
                                     (case cartItems of
                                        None \<Rightarrow>
                                          (Inr (Some (o_id stored)),
                                           notifySeller orderData (o_id stored) d1)
                                      | Some cart \<Rightarrow>
                                          if cart = []
                                          then (Inr (Some (o_id stored)),
                                                notifySeller orderData (o_id stored) d1)
                                          else
                                            (case insert_order_items be
                                                    (orderItemsFor (o_id stored) cart) d1 of
                                               (Rejected e, d2) \<Rightarrow> (Inl e, d2)
                                             | (Resolved i itemsError, d2) \<Rightarrow>
                                                 (Inr (Some (o_id stored)),
                                                  notifySeller orderData (o_id stored)
                                                    (updateInventory be (o_id stored) now cart d2))))))))))"

section \<open>Reading the tables\<close>

text \<open>The stock of a product, its inventory log entries and the low-stock requests made
  for it.\<close>

definition stockOf :: "string \<Rightarrow> db \<Rightarrow> number option" where
  "stockOf i d = map_option pd_stock_quantity (products d i)"

definition logsOf :: "string \<Rightarrow> db \<Rightarrow> InventoryLog list" where
  "logsOf i d = filter (\<lambda>l. il_product_id l = i) (inventory_logs d)"

fun isLowStockFor :: "string \<Rightarrow> RpcCall \<Rightarrow> bool" where
  "isLowStockFor i (Low_stock user name product current limit order_id) = (product = i)"
| "isLowStockFor i (New_order user order_id) = False"

definition lowStockCalls :: "string \<Rightarrow> db \<Rightarrow> RpcCall list" where
  "lowStockCalls i d = filter (isLowStockFor i) (rpc_calls d)"

definition productView :: "string \<Rightarrow> db \<Rightarrow> ProductData option \<times> InventoryLog list \<times> RpcCall list" where
  "productView i d = (products d i, logsOf i d, lowStockCalls i d)"

text \<open>What the loop body computes and logs for a cart line of a product with row \<open>p\<close>.\<close>

definition newStock :: "ProductData \<Rightarrow> CartItem \<Rightarrow> number" where
  "newStock p item = max 0 (pd_stock_quantity p - ci_quantity item)"

definition logEntry :: "string \<Rightarrow> string \<Rightarrow> ProductData \<Rightarrow> CartItem \<Rightarrow> InventoryLog" where
  "logEntry order_id now p item =
     \<lparr>il_product_id = ci_id item,
      il_previous_quantity = pd_stock_quantity p,
      il_new_quantity = newStock p item,
      il_change_quantity = - ci_quantity item,
      il_reason = ''Order fulfillment (Order #'' @ take 8 order_id @ '')'',
      il_created_at = now,
      il_created_by = pd_seller_id p\<rparr>"

fun throws :: "outcome \<Rightarrow> bool" where
  "throws (Throws e) = True"
| "throws Succeeds = False"
| "throws (Fails e) = False"

text \<open>
  The low-stock check of a decremented line is reached when the log insert does not
  throw, and it reads the product's name back before it compares.
\<close>

definition reachesStockCheck :: "backend \<Rightarrow> CartItem \<Rightarrow> bool" where
  "reachesStockCheck be item \<longleftrightarrow>
     \<not> throws (be_insert_log be (ci_id item))
     \<and> be_select_product_name be (ci_id item) = Succeeds"

text \<open>
  A cart line's product is decremented when the backend returns its row and carries the
  stock update out; in every other case the loop body skips the line.
\<close>

definition decremented :: "backend \<Rightarrow> db \<Rightarrow> CartItem \<Rightarrow> bool" where
  "decremented be d item \<longleftrightarrow>
     be_select_product be (ci_id item) = Succeeds
     \<and> products d (ci_id item) \<noteq> None
     \<and> be_update_stock be (ci_id item) = Succeeds"

section \<open>The checkout page (Checkout.tsx)\<close>

record DeliveryOption =
  do_id :: string
  do_name :: string
  do_description :: string
  do_fee :: number
  do_minDays :: nat
  do_maxDays :: nat

definition deliveryOptions :: "DeliveryOption list" where
  "deliveryOptions =
     [\<lparr>do_id = ''standard'', do_name = ''Standard Delivery'',
       do_description = ''3-5 business days'', do_fee = 50, do_minDays = 3, do_maxDays = 5\<rparr>,
      \<lparr>do_id = ''express'', do_name = ''Express Delivery'',
       do_description = ''1-2 business days'', do_fee = 100, do_minDays = 1, do_maxDays = 2\<rparr>,
      \<lparr>do_id = ''maxim'', do_name = ''Maxim Same-day'',
       do_description = ''Same day delivery'', do_fee = 150, do_minDays = 0, do_maxDays = 1\<rparr>]"

definition selectedDeliveryDetails :: "string \<Rightarrow> DeliveryOption option" where
  "selectedDeliveryDetails selectedDeliveryOption =
     find (\<lambda>option. do_id option = selectedDeliveryOption) deliveryOptions"

text \<open>\<open>deliveryOptions.find(...)?.fee || 50\<close>.\<close>

definition selectedDeliveryFee :: "string \<Rightarrow> number" where
  "selectedDeliveryFee selectedDeliveryOption =
     (case find (\<lambda>option. do_id option = selectedDeliveryOption) deliveryOptions of
        None \<Rightarrow> 50
      | Some option \<Rightarrow> if do_fee option = 0 then 50 else do_fee option)"

definition isWeekend :: "date \<Rightarrow> bool" where
  "isWeekend d \<longleftrightarrow> (d + 4) mod 7 = 0 \<or> (d + 4) mod 7 = 6"

definition nextBusinessDay :: "date \<Rightarrow> date" where
  "nextBusinessDay d =
     (if \<not> isWeekend (d + 1) then d + 1 else if \<not> isWeekend (d + 2) then d + 2 else d + 3)"

text \<open>
  Modelled from the spec: \<open>addBusinessDays\<close> is imported from the date-fns library and is
  not among the sources. The spec says that the estimated date is today plus the option's
  maximum business days, skipping weekends: each business day added moves to the next day
  that is not a Saturday or a Sunday.
\<close>

fun addBusinessDays :: "date \<Rightarrow> nat \<Rightarrow> date" where
  "addBusinessDays d 0 = d"
| "addBusinessDays d (Suc n) = addBusinessDays (nextBusinessDay d) n"

definition calculateEstimatedDelivery :: "date \<Rightarrow> string \<Rightarrow> date option" where
  "calculateEstimatedDelivery today selectedDeliveryOption =
     (case selectedDeliveryDetails selectedDeliveryOption of
        None \<Rightarrow> None
      | Some details \<Rightarrow> Some (addBusinessDays today (do_maxDays details)))"

record ShippingInfo =
  fullName :: string
  address :: string
  city :: string
  province :: string
  postalCode :: string
  phone :: string

datatype PaymentMethod = Stripe | Cod

fun paymentMethodName :: "PaymentMethod \<Rightarrow> string" where
  "paymentMethodName Stripe = ''stripe''"
| "paymentMethodName Cod = ''cod''"

record Checkout =
  paymentMethod :: PaymentMethod
  clientSecret :: "string option"
  selectedDeliveryOption :: string
  shippingInfo :: ShippingInfo

text \<open>The first empty field in the order \<open>for ... in\<close> visits the keys.\<close>

definition missingShippingField :: "ShippingInfo \<Rightarrow> string option" where
  "missingShippingField info =
     (if fullName info = [] then Some ''fullName''
      else if address info = [] then Some ''address''
      else if city info = [] then Some ''city''
      else if province info = [] then Some ''province''
      else if postalCode info = [] then Some ''postalCode''
      else if phone info = [] then Some ''phone''
      else None)"

definition validateShippingInfo :: "ShippingInfo \<Rightarrow> bool" where
  "validateShippingInfo info \<longleftrightarrow> missingShippingField info = None"

definition formattedAddress :: "ShippingInfo \<Rightarrow> string" where
  "formattedAddress info =
     fullName info @ '', '' @ address info @ '', '' @ city info @ '', '' @ province info
       @ '' '' @ postalCode info @ '', Phone: '' @ phone info"

definition totalWithShipping :: "CartState \<Rightarrow> Checkout \<Rightarrow> number" where
  "totalWithShipping cart co = selectedItemsTotal cart + selectedDeliveryFee (selectedDeliveryOption co)"

text \<open>\<open>selectedItems[0]?.seller || null\<close>.\<close>

definition firstSeller :: "CartItem list \<Rightarrow> string option" where
  "firstSeller xs =
     (case xs of [] \<Rightarrow> None | item # rest \<Rightarrow> if ci_seller item = [] then None else Some (ci_seller item))"

datatype SubmitResult =
    Shipping_missing string
  | No_items_selected
  | Order_placed "string option"
  | Order_failed string
  | Card_payment_pending
  | Payment_not_ready

text \<open>Lines 210 to 218: the order data \<open>handleSubmit\<close> prepares.\<close>

definition submittedOrderData :: "date \<Rightarrow> Checkout \<Rightarrow> CartState \<Rightarrow> OrderData" where
  "submittedOrderData today co cart =
     \<lparr>od_seller_id = firstSeller (selectedItems cart),
      od_total_amount = Some (totalWithShipping cart co),
      od_payment_method = Some (paymentMethodName (paymentMethod co)),
      od_payment_status = None,
      od_shipping_address = Some (formattedAddress (shippingInfo co)),
      od_billing_address = Some (formattedAddress (shippingInfo co)),
      od_estimated_delivery = calculateEstimatedDelivery today (selectedDeliveryOption co),
      od_tracking_number = None,
      od_tracking_url = None,
      od_delivery_option = Some (selectedDeliveryOption co),
      od_payment_intent_id = None\<rparr>"

definition handleSubmit ::
  "backend \<Rightarrow> string \<Rightarrow> date \<Rightarrow> Checkout \<Rightarrow> CartState \<Rightarrow> db \<Rightarrow> SubmitResult \<times> CartState \<times> db" where
  "handleSubmit be now today co cart d =
     (case missingShippingField (shippingInfo co) of
        Some key \<Rightarrow> (Shipping_missing key, cart, d)
      | None \<Rightarrow>
          if selectedItems cart = [] then (No_items_selected, cart, d)
          else
            (case paymentMethod co of
               Cod \<Rightarrow>
                 (case createOrder_orderService be now (submittedOrderData today co cart)
                         (Some (selectedItems cart)) d of
                    (Inl e, d') \<Rightarrow> (Order_failed e, cart, d')
                  | (Inr orderId, d') \<Rightarrow> (Order_placed orderId, clearCart cart, d'))
             | Stripe \<Rightarrow>
                 (if \<not> truthy (clientSecret co) then (Payment_not_ready, cart, d)
                  else (Card_payment_pending, cart, d))))"

text \<open>Lines 265 to 275: the order data \<open>onPaymentSuccess\<close> prepares.\<close>

definition paidOrderData :: "date \<Rightarrow> string \<Rightarrow> Checkout \<Rightarrow> CartState \<Rightarrow> OrderData" where
  "paidOrderData today completedPaymentIntentId co cart =
     \<lparr>od_seller_id = firstSeller (selectedItems cart),
      od_total_amount = Some (totalWithShipping cart co),
      od_payment_method = Some ''stripe'',
      od_payment_status = Some ''succeeded'',
      od_shipping_address = Some (formattedAddress (shippingInfo co)),
      od_billing_address = Some (formattedAddress (shippingInfo co)),
      od_estimated_delivery = calculateEstimatedDelivery today (selectedDeliveryOption co),
      od_tracking_number = None,
      od_tracking_url = None,
      od_delivery_option = Some (selectedDeliveryOption co),
      od_payment_intent_id = Some completedPaymentIntentId\<rparr>"

definition onPaymentSuccess ::
  "backend \<Rightarrow> string \<Rightarrow> date \<Rightarrow> string \<Rightarrow> Checkout \<Rightarrow> CartState \<Rightarrow> db
     \<Rightarrow> SubmitResult \<times> CartState \<times> db" where
  "onPaymentSuccess be now today completedPaymentIntentId co cart d =
     (case createOrder_orderService be now (paidOrderData today completedPaymentIntentId co cart)
             (Some (selectedItems cart)) d of
        (Inl e, d') \<Rightarrow> (Order_failed e, cart, d')
      | (Inr None, d') \<Rightarrow> (Order_failed ''Failed to create order: No order ID returned'', cart, d')
      | (Inr (Some orderId), d') \<Rightarrow> (Order_placed (Some orderId), clearCart cart, d'))"

section \<open>The payment service (\<open>createPaymentIntent\<close> of stripeService.ts)\<close>




section \<open>The older order writer (\<open>createOrder\<close> of the cart service)\<close>

definition isHexDigit :: "char \<Rightarrow> bool" where
  "isHexDigit c \<longleftrightarrow> c \<in> set ''0123456789abcdefABCDEF''"

text \<open>
  \<open>/^[0-9a-f]{8}-[0-9a-f]{4}-[0-9a-f]{4}-[0-9a-f]{4}-[0-9a-f]{12}$/i\<close>: 36 characters,
  hyphens at positions 8, 13, 18 and 23, hexadecimal digits of either case elsewhere.
\<close>

definition isValidUUID :: "string \<Rightarrow> bool" where
  "isValidUUID uuid \<longleftrightarrow>
     length uuid = 36
     \<and> list_all isHexDigit (take 8 uuid) \<and> take 1 (drop 8 uuid) = ''-''
     \<and> list_all isHexDigit (take 4 (drop 9 uuid)) \<and> take 1 (drop 13 uuid) = ''-''
     \<and> list_all isHexDigit (take 4 (drop 14 uuid)) \<and> take 1 (drop 18 uuid) = ''-''
     \<and> list_all isHexDigit (take 4 (drop 19 uuid)) \<and> take 1 (drop 23 uuid) = ''-''
     \<and> list_all isHexDigit (drop 24 uuid)"

text \<open>\<open>potentialSellerId && typeof potentialSellerId === 'string' && isValidUUID(...)\<close>.\<close>

definition validSeller :: "string option \<Rightarrow> bool" where
  "validSeller potentialSellerId =
     (case potentialSellerId of None \<Rightarrow> False | Some s \<Rightarrow> s \<noteq> [] \<and> isValidUUID s)"

text \<open>
  \<open>updateOrCreateSellerCustomerRelationship\<close>. It reads only \<open>data\<close> of the select and
  ignores what the writes answer; \<open>Inl\<close> is an await that throws.
\<close>

definition updateOrCreateSellerCustomerRelationship ::
  "backend \<Rightarrow> string \<Rightarrow> string \<Rightarrow> string \<Rightarrow> number \<Rightarrow> db \<Rightarrow> (string + unit) \<times> db" where
  "updateOrCreateSellerCustomerRelationship be currentDate sellerId customerId totalAmount d =
     (case answer (be_select_relationship be)
             (single (filter (\<lambda>r. sc_seller_id r = sellerId \<and> sc_customer_id r = customerId)
                        (seller_customers d))) of
        Rejected e \<Rightarrow> (Inl e, d)
      | Resolved existingRecord selectError \<Rightarrow>
          (case be_write_relationship be of
             Throws e \<Rightarrow> (Inl e, d)
           | Fails e \<Rightarrow> (Inr (), d)
           | Succeeds \<Rightarrow>
               (case existingRecord of
                  Some existing \<Rightarrow>
                    (Inr (),
                     d\<lparr>seller_customers :=
                         map (\<lambda>r. if sc_id r = sc_id existing
                                   then r\<lparr>sc_total_orders := or_zero (sc_total_orders existing) + 1,
                                          sc_total_spent := or_zero (sc_total_spent existing) + totalAmount,
                                          sc_last_purchase_date := currentDate,
                                          sc_status := ''active''\<rparr>
                                   else r) (seller_customers d)\<rparr>)
                | None \<Rightarrow>
                    (Inr (),
                     d\<lparr>seller_customers := seller_customers d @
                         [\<lparr>sc_id = be_new_relationship_id be, sc_seller_id = sellerId,
                           sc_customer_id = customerId, sc_total_orders = 1,
                           sc_total_spent = totalAmount, sc_last_purchase_date = currentDate,
                           sc_status = ''active''\<rparr>]\<rparr>))))"

text \<open>
  Lines 101 to 139 of the cart service: the relationship is recorded for the profile
  whose \<open>id\<close> is the user's, else for the one whose \<open>user_id\<close> is; every failure in
  here is caught and the order is returned all the same.
\<close>

definition recordRelationship ::
  "backend \<Rightarrow> string \<Rightarrow> string \<Rightarrow> string \<Rightarrow> number \<Rightarrow> db \<Rightarrow> db" where
  "recordRelationship be now sellerId user_id totalAmount d =
     (case answer (be_select_profile be)
             (single (filter (\<lambda>p. pr_id p = user_id) (profiles d))) of
        Rejected e \<Rightarrow> d
      | Resolved directProfileData directProfileError \<Rightarrow>
          (case (if directProfileError = None then directProfileData else None) of
             Some profile \<Rightarrow>
               snd (updateOrCreateSellerCustomerRelationship be now sellerId (pr_id profile) totalAmount d)
           | None \<Rightarrow>
               (case answer (be_select_profile be)
                       (single (filter (\<lambda>p. pr_user_id p = Some user_id) (profiles d))) of
                  Rejected e \<Rightarrow> d
                | Resolved profileData profileError \<Rightarrow>
                    (case (if profileError = None then profileData else None) of
                       None \<Rightarrow> d
                     | Some profile \<Rightarrow>
                         snd (updateOrCreateSellerCustomerRelationship be now sellerId
                                (pr_id profile) totalAmount d)))))"

text \<open>Lines 28 to 62 of the cart service: the order row it inserts.\<close>

definition cartOrderData ::
  "string \<Rightarrow> string \<Rightarrow> CartItem list \<Rightarrow> string \<Rightarrow> string \<Rightarrow> string \<Rightarrow> OrderRow" where
  "cartOrderData user_id now cartItems shippingAddress billingAddress method =
     (let totalAmount = subtotal cartItems;
          shippingFee = 150;
          totalWithShipping = totalAmount + shippingFee;
          paymentStatus = (if method = ''stripe'' then ''pending'' else ''awaiting_payment'');
          potentialSellerId = firstSeller cartItems
      in \<lparr>o_id = [],
          o_buyer_id = user_id,
          o_seller_id = (if validSeller potentialSellerId then potentialSellerId else None),
          o_status = Processing,
          o_total_amount = totalWithShipping,
          o_created_at = now,
          o_updated_at = None,
          o_payment_method = (if method = ''cod'' then ''Cash on Delivery'' else ''stripe''),
          o_payment_status = Some paymentStatus,
          o_shipping_address = shippingAddress,
          o_billing_address = billingAddress,
          o_estimated_delivery = None,
          o_tracking_number = None,
          o_tracking_url = None,
          o_delivery_option = None,
          o_payment_intent_id = None\<rparr>)"

text \<open>\<open>createOrder\<close> of the cart service: \<open>Inr\<close> is the stored order row it returns,
  \<open>Inl\<close> the error it throws again from its \<open>catch\<close>.\<close>

definition createOrder_cartService ::
  "backend \<Rightarrow> string \<Rightarrow> CartItem list \<Rightarrow> string \<Rightarrow> string \<Rightarrow> string \<Rightarrow> db
     \<Rightarrow> (string + OrderRow) \<times> db" where
  "createOrder_cartService be now cartItems shippingAddress billingAddress method d =
     (case be_getUser be of
        Rejected e \<Rightarrow> (Inl e, d)
      | Resolved user userError \<Rightarrow>
          (case (if userError = None then user else None) of
             None \<Rightarrow> (Inl ''You must be signed in to place an order'', d)
           | Some user_id \<Rightarrow>
               if cartItems = []
               then (Inl ''Your cart is empty. Please add items before checkout.'', d)
               else
                 (case insert_order be
                         (cartOrderData user_id now cartItems shippingAddress billingAddress method)
                         d of
                    (Rejected e, d1) \<Rightarrow> (Inl e, d1)
                  | (Resolved data orderError, d1) \<Rightarrow>
                      (case orderError of
                         Some message \<Rightarrow> (Inl (''Failed to create order: '' @ message), d1)
                       | None \<Rightarrow>
                           (case data of
                              None \<Rightarrow> (Inl ''Failed to create order: Unknown error'', d1)
                            | Some order \<Rightarrow>
                                (case insert_order_items be
                                        (orderItemsFor (o_id order) cartItems) d1 of
                                   (Rejected e, d2) \<Rightarrow> (Inl e, d2)
                                 | (Resolved i itemsError, d2) \<Rightarrow>
                                     (case itemsError of
                                        Some message \<Rightarrow>
                                          (Inl (''Failed to add order items: '' @ message), d2)
                                      | None \<Rightarrow>
                                          (case firstSeller cartItems of
                                             None \<Rightarrow> (Inr order, d2)
                                           | Some potentialSellerId \<Rightarrow>
                                               if validSeller (Some potentialSellerId)
                                               then (Inr order,
                                                     recordRelationship be now potentialSellerId
                                                       user_id (subtotal cartItems + 150) d2)
                                               else (Inr order, d2)))))))))"

section \<open>Cancelling an order (OrderCard.tsx)\<close>

text \<open>The \<open>order\<close> property of the card, as far as cancelling reads it.\<close>

record CardOrder =
  co_id :: string
  co_status :: OrderStatus

datatype CancelResult =
    Only_processing_can_be_cancelled
  | Must_be_logged_in
  | Order_cancelled
  | Cancel_failed

text \<open>\<open>update({status: 'cancelled'}).eq('id', order.id).eq('buyer_id', user.id)\<close>.\<close>

definition cancel_order_row :: "backend \<Rightarrow> string \<Rightarrow> string \<Rightarrow> db \<Rightarrow> unit reply \<times> db" where
  "cancel_order_row be order_id user_id d =
     (answer (be_update_order be) (Resolved None None),
      applied (be_update_order be)
        (d\<lparr>orders := map (\<lambda>row. if o_id row = order_id \<and> o_buyer_id row = user_id
                                  then row\<lparr>o_status := Cancelled\<rparr> else row) (orders d)\<rparr>) d)"

definition canBeCancelled :: "CardOrder \<Rightarrow> bool" where
  "canBeCancelled order \<longleftrightarrow> co_status order = Processing"

definition handleCancelOrder :: "backend \<Rightarrow> CardOrder \<Rightarrow> db \<Rightarrow> CancelResult \<times> db" where
  "handleCancelOrder be order d =
     (if co_status order \<noteq> Processing then (Only_processing_can_be_cancelled, d)
      else (case be_getUser be of
              Rejected e \<Rightarrow> (Cancel_failed, d)
            | Resolved user userError \<Rightarrow>
                (case user of
                   None \<Rightarrow> (Must_be_logged_in, d)
                 | Some user_id \<Rightarrow>
                     (case cancel_order_row be (co_id order) user_id d of
                        (Rejected e, d1) \<Rightarrow> (Cancel_failed, d1)
                      | (Resolved u error, d1) \<Rightarrow>
                          if error \<noteq> None then (Cancel_failed, d1) else (Order_cancelled, d1)))))"

section \<open>A sample run\<close>

text \<open>One signed-in buyer, one product, a backend that carries every call out.\<close>

definition sample_item :: CartItem where
  "sample_item =
     \<lparr>ci_id = ''p1'', ci_name = ''Mug'', ci_price = 500, ci_quantity = 2,
      ci_image = ''mug.png'', ci_seller = ''seller-42'', ci_selected = True\<rparr>"

definition sample_cart :: CartState where
  "sample_cart = \<lparr>items = [sample_item], isCartOpen = False\<rparr>"

definition sample_backend :: backend where
  "sample_backend =
     \<lparr>be_getUser = Resolved (Some ''u1'') None,
      be_new_order_id = ''order-0001'',
      be_insert_order = Succeeds,
      be_insert_order_items = Succeeds,
      be_select_product = (\<lambda>i. Succeeds),
      be_update_stock = (\<lambda>i. Succeeds),
      be_insert_log = (\<lambda>i. Succeeds),
      be_select_product_name = (\<lambda>i. Succeeds),
      be_update_order = Succeeds,
      be_select_profile = Succeeds,
      be_select_relationship = Succeeds,
      be_write_relationship = Succeeds,
      be_new_relationship_id = ''rel-0001''\<rparr>"

definition sample_db :: "number \<Rightarrow> db" where
  "sample_db stock =
     \<lparr>orders = [],
      order_items = [],
      products = [''p1'' \<mapsto> \<lparr>pd_stock_quantity = stock, pd_is_available = True,
                                pd_seller_id = Some ''seller-42'', pd_name = ''Mug''\<rparr>],
      inventory_logs = [],
      rpc_calls = [],
      profiles = [],
      seller_customers = []\<rparr>"

definition sample_order :: OrderData where
  "sample_order =
     \<lparr>od_seller_id = Some ''seller-42'',
      od_total_amount = Some 1150,
      od_payment_method = Some ''cod'',
      od_payment_status = None,
      od_shipping_address = Some ''Ana Cruz, 1 Rizal St, Cebu, Cebu 6000, Phone: 0917'',
      od_billing_address = Some ''Ana Cruz, 1 Rizal St, Cebu, Cebu 6000, Phone: 0917'',
      od_estimated_delivery = None,
      od_tracking_number = None,
      od_tracking_url = None,
      od_delivery_option = Some ''maxim'',
      od_payment_intent_id = None\<rparr>"

definition sample_checkout :: "PaymentMethod \<Rightarrow> string \<Rightarrow> Checkout" where
  "sample_checkout method option =
     \<lparr>paymentMethod = method, clientSecret = None, selectedDeliveryOption = option,
      shippingInfo = \<lparr>fullName = ''Ana Cruz'', address = ''1 Rizal St'', city = ''Cebu'',
                       province = ''Cebu'', postalCode = ''6000'', phone = ''0917''\<rparr>\<rparr>"

section \<open>Cart quantities\<close>

lemma findIndex_Some:
  "findIndex P xs = Some k \<Longrightarrow> k < length xs \<and> P (xs ! k)"
proof (induction xs arbitrary: k)
  case Nil
  then show ?case by simp
next
  case (Cons x xs)
  then show ?case by (cases "P x") (auto split: if_splits)
qed

lemma quantities_positive_update:
  assumes "quantities_positive xs" and "k < length xs" and "1 \<le> ci_quantity y"
  shows "quantities_positive (xs[k := y])"
  using assms unfolding quantities_positive_def list_all_iff
  by (auto dest!: set_update_subset_insert [THEN subsetD])

lemma addItem_keeps_quantities:
  assumes "quantities_positive (items st)"
  shows "quantities_positive (items (addItem product r st))"
proof (cases r)
  case (Rejected e)
  with assms show ?thesis by (simp add: addItem_def)
next
  case (Resolved productData error)
  show ?thesis
  proof (cases "findIndex (\<lambda>item. ci_id item = ni_id product) (items st)")
    case None
    with assms Resolved show ?thesis
      by (auto simp: addItem_def quantities_positive_def split: option.splits)
  next
    case (Some k)
    from findIndex_Some [OF Some] have k: "k < length (items st)" by simp
    from assms k have "1 \<le> ci_quantity (items st ! k)"
      by (simp add: quantities_positive_def list_all_length)
    then have "1 \<le> ci_quantity ((items st ! k)\<lparr>ci_quantity := ci_quantity (items st ! k) + 1\<rparr>)"
      by simp
    from quantities_positive_update [OF assms k this] assms Resolved Some show ?thesis
      by (auto simp: addItem_def Let_def split: option.splits)
  qed
qed

lemma removeItem_keeps_quantities:
  "quantities_positive (items st) \<Longrightarrow> quantities_positive (items (removeItem i st))"
  by (simp add: removeItem_def quantities_positive_def list_all_iff)

lemma toggleItemSelection_keeps_quantities:
  "quantities_positive (items st) \<Longrightarrow> quantities_positive (items (toggleItemSelection i st))"
  by (auto simp: toggleItemSelection_def quantities_positive_def list_all_iff)

lemma toggleAllSelection_keeps_quantities:
  "quantities_positive (items st) \<Longrightarrow> quantities_positive (items (toggleAllSelection b st))"
  by (auto simp: toggleAllSelection_def quantities_positive_def list_all_iff)

lemma clearCart_keeps_quantities: "quantities_positive (items (clearCart st))"
  by (simp add: clearCart_def quantities_positive_def)

lemma updateQuantity_nonpositive_removes:
  "quantity \<le> 0 \<Longrightarrow> updateQuantity i quantity r st = removeItem i st"
  by (simp add: updateQuantity_def)

text \<open>\<open>updateQuantity\<close> keeps the invariant whenever the stock it reads is at least 1.\<close>

lemma updateQuantity_keeps_quantities:
  assumes "quantities_positive (items st)"
    and "\<And>s e. r = Resolved (Some s) e \<Longrightarrow> 1 \<le> s \<or> quantity \<le> s \<or> e \<noteq> None"
    and "0 < quantity \<Longrightarrow> 1 \<le> quantity"
  shows "quantities_positive (items (updateQuantity i quantity r st))"
proof (cases "quantity \<le> 0")
  case True
  with assms(1) show ?thesis
    by (simp add: updateQuantity_def removeItem_keeps_quantities)
next
  case False
  with assms(3) have q: "1 \<le> quantity" by simp
  show ?thesis
  proof (cases r)
    case (Rejected e)
    with assms(1) False show ?thesis by (simp add: updateQuantity_def)
  next
    case (Resolved productData error)
    with assms(1,2) q False show ?thesis
      by (auto simp: updateQuantity_def quantities_positive_def list_all_iff
               split: option.splits)
  qed
qed

text \<open>The cart store keeps one line per product: no operation makes two lines share a
  product id.\<close>

lemma findIndex_None: "findIndex P xs = None \<Longrightarrow> \<forall>x\<in>set xs. \<not> P x"
  by (induction xs) (auto split: if_splits)

lemma ids_after_quantity_update:
  "k < length xs \<Longrightarrow> map ci_id (xs[k := (xs ! k)\<lparr>ci_quantity := q\<rparr>]) = map ci_id xs"
  by (simp add: map_update list_update_same_conv)

lemma addItem_keeps_ids_distinct:
  assumes "distinct (map ci_id (items st))"
  shows "distinct (map ci_id (items (addItem product r st)))"
proof (cases "findIndex (\<lambda>item. ci_id item = ni_id product) (items st)")
  case None
  then have "ni_id product \<notin> ci_id ` set (items st)"
    using findIndex_None [OF None] by auto
  with assms None show ?thesis
    by (auto simp: addItem_def split: reply.splits option.splits)
next
  case (Some k)
  from findIndex_Some [OF Some] have "k < length (items st)" by simp
  from ids_after_quantity_update [OF this] assms Some show ?thesis
    by (auto simp: addItem_def Let_def split: reply.splits option.splits)
qed

lemma cart_operations_keep_ids_distinct:
  assumes "distinct (map ci_id (items st))"
  shows "distinct (map ci_id (items (removeItem i st)))"
    and "distinct (map ci_id (items (updateQuantity i quantity r st)))"
    and "distinct (map ci_id (items (toggleItemSelection i st)))"
    and "distinct (map ci_id (items (toggleAllSelection b st)))"
    and "distinct (map ci_id (items (clearCart st)))"
    and "distinct (map ci_id (selectedItems st))"
proof -
  have same: "ci_id \<circ> (\<lambda>item. if ci_id item = i then f item else item) = ci_id"
    if "\<And>item. ci_id (f item) = ci_id item" for f :: "CartItem \<Rightarrow> CartItem"
    using that by (auto simp: fun_eq_iff)
  show "distinct (map ci_id (items (removeItem i st)))"
    using assms by (simp add: removeItem_def distinct_map_filter)
  then show "distinct (map ci_id (items (updateQuantity i quantity r st)))"
    using assms
    by (auto simp: updateQuantity_def same split: reply.splits option.splits)
  show "distinct (map ci_id (items (toggleItemSelection i st)))"
    using assms by (simp add: toggleItemSelection_def same)
  show "distinct (map ci_id (items (toggleAllSelection b st)))"
    using assms by (simp add: toggleAllSelection_def comp_def)
  show "distinct (map ci_id (items (clearCart st)))"
    by (simp add: clearCart_def)
  show "distinct (map ci_id (selectedItems st))"
    using assms by (simp add: selectedItems_def distinct_map_filter)
qed

text \<open>
  C10. Every cart operation is claimed to keep each line's quantity at 1 or more. The
  clamping branch of \<open>updateQuantity\<close> stores the stock it has just read, also when that
  stock is 0: a cart holding one unit of a product that has sold out in the meantime,
  asked for two units (the sidebar's plus button), ends with a line of quantity 0.
\<close>

theorem updateQuantity_stores_zero_when_sold_out:
  "quantities_positive
     [\<lparr>ci_id = ''p1'', ci_name = ''Mug'', ci_price = 500, ci_quantity = 1,
       ci_image = ''mug.png'', ci_seller = ''s1'', ci_selected = True\<rparr>]
   \<and> items (updateQuantity ''p1'' 2 (Resolved (Some 0) None)
        \<lparr>items = [\<lparr>ci_id = ''p1'', ci_name = ''Mug'', ci_price = 500, ci_quantity = 1,
                    ci_image = ''mug.png'', ci_seller = ''s1'', ci_selected = True\<rparr>],
         isCartOpen = True\<rparr>)
     = [\<lparr>ci_id = ''p1'', ci_name = ''Mug'', ci_price = 500, ci_quantity = 0,
          ci_image = ''mug.png'', ci_seller = ''s1'', ci_selected = True\<rparr>]
   \<and> \<not> quantities_positive
        (items (updateQuantity ''p1'' 2 (Resolved (Some 0) None)
           \<lparr>items = [\<lparr>ci_id = ''p1'', ci_name = ''Mug'', ci_price = 500, ci_quantity = 1,
                       ci_image = ''mug.png'', ci_seller = ''s1'', ci_selected = True\<rparr>],
            isCartOpen = True\<rparr>))"
  by (simp add: updateQuantity_def quantities_positive_def)

section \<open>Sums and fees\<close>

lemma subtotal_sum_list:
  "subtotal xs = sum_list (map (\<lambda>item. ci_price item * ci_quantity item) xs)"
proof -
  have "foldl (\<lambda>total item. total + ci_price item * ci_quantity item) a xs
        = a + sum_list (map (\<lambda>item. ci_price item * ci_quantity item) xs)" for a
    by (induction xs arbitrary: a) (simp_all add: add.assoc)
  then show ?thesis by (simp add: subtotal_def)
qed

lemma selectedDeliveryFee_table:
  "selectedDeliveryFee ''standard'' = 50"
  "selectedDeliveryFee ''express'' = 100"
  "selectedDeliveryFee ''maxim'' = 150"
  by (simp_all add: selectedDeliveryFee_def deliveryOptions_def)

lemma sample_selected: "selectedItems sample_cart = [sample_item]"
  by (simp add: selectedItems_def sample_cart_def sample_item_def)

lemma sample_subtotal: "subtotal [sample_item] = 1000"
  by (simp add: subtotal_def sample_item_def)



section \<open>Delivery options and the estimated date\<close>

lemma isWeekend_mod:
  "isWeekend (d + k) \<longleftrightarrow> (d mod 7 + (k + 4)) mod 7 = 0 \<or> (d mod 7 + (k + 4)) mod 7 = 6"
  by (simp add: isWeekend_def mod_simps add.assoc)

lemma mod7_cases:
  fixes d :: int
  shows "d mod 7 = 0 \<or> d mod 7 = 1 \<or> d mod 7 = 2 \<or> d mod 7 = 3
           \<or> d mod 7 = 4 \<or> d mod 7 = 5 \<or> d mod 7 = 6"
proof -
  have "0 \<le> d mod 7" and "d mod 7 < 7" by simp_all
  then show ?thesis by arith
qed

text \<open>Of three days in a row, at most two are weekend days.\<close>

lemma weekend_pair: "isWeekend (d + 1) \<Longrightarrow> isWeekend (d + 2) \<Longrightarrow> \<not> isWeekend (d + 3)"
  using mod7_cases [of d] by (auto simp: isWeekend_mod)

lemma nextBusinessDay_weekday: "\<not> isWeekend (nextBusinessDay d)"
  using weekend_pair [of d] by (simp add: nextBusinessDay_def)

lemma nextBusinessDay_later: "d < nextBusinessDay d"
  by (simp add: nextBusinessDay_def)

lemma nextBusinessDay_only:
  "filter (\<lambda>x. \<not> isWeekend x) [d + 1..nextBusinessDay d] = [nextBusinessDay d]"
proof -
  have 1: "[d + 1..d + 1] = [d + 1]" by simp
  have 2: "[d + 1..d + 2] = [d + 1, d + 2]" by (simp add: upto_rec1)
  have 3: "[d + 1..d + 3] = [d + 1, d + 2, d + 3]" by (simp add: upto_rec1)
  show ?thesis
    using weekend_pair [of d] by (auto simp: nextBusinessDay_def 1 2 3)
qed

lemma addBusinessDays_later: "d \<le> addBusinessDays d n"
proof (induction n arbitrary: d)
  case 0
  show ?case by simp
next
  case (Suc n)
  from Suc [of "nextBusinessDay d"] nextBusinessDay_later [of d] show ?case by simp
qed

text \<open>Exactly \<open>n\<close> business days lie after \<open>d\<close> up to the day \<open>n\<close> business days later.\<close>

lemma addBusinessDays_count:
  "length (filter (\<lambda>x. \<not> isWeekend x) [d + 1..addBusinessDays d n]) = n"
proof (induction n arbitrary: d)
  case 0
  show ?case by simp
next
  case (Suc n)
  let ?e = "nextBusinessDay d"
  have split: "[d + 1..addBusinessDays ?e n] = [d + 1..?e] @ [?e + 1..addBusinessDays ?e n]"
    using nextBusinessDay_later [of d] addBusinessDays_later [of ?e n]
    by (intro upto_split2) auto
  show ?case
    using Suc [of ?e] by (simp add: split nextBusinessDay_only)
qed

lemma addBusinessDays_weekday: "0 < n \<Longrightarrow> \<not> isWeekend (addBusinessDays d n)"
proof (induction n arbitrary: d)
  case 0
  then show ?case by simp
next
  case (Suc n)
  show ?case
  proof (cases n)
    case 0
    then show ?thesis by (simp add: nextBusinessDay_weekday)
  next
    case (Suc m)
    with Suc.IH [of "nextBusinessDay d"] show ?thesis by simp
  qed
qed

lemma selectedDeliveryDetails_cases:
  assumes "selectedDeliveryDetails option = Some details"
  shows "(option = ''standard'' \<and> do_fee details = 50 \<and> do_maxDays details = 5)
         \<or> (option = ''express'' \<and> do_fee details = 100 \<and> do_maxDays details = 2)
         \<or> (option = ''maxim'' \<and> do_fee details = 150 \<and> do_maxDays details = 1)"
proof -
  consider (standard) "option = ''standard''"
    | (express) "option = ''express''"
    | (maxim) "option = ''maxim''"
    | (other) "''standard'' \<noteq> option" "''express'' \<noteq> option" "''maxim'' \<noteq> option"
    by blast
  then show ?thesis
  proof cases
    case standard
    have "selectedDeliveryDetails ''standard'' = Some (deliveryOptions ! 0)"
      by (simp add: selectedDeliveryDetails_def deliveryOptions_def)
    with assms standard have "details = deliveryOptions ! 0" by simp
    with standard show ?thesis by (simp add: deliveryOptions_def)
  next
    case express
    have "selectedDeliveryDetails ''express'' = Some (deliveryOptions ! 1)"
      by (simp add: selectedDeliveryDetails_def deliveryOptions_def)
    with assms express have "details = deliveryOptions ! 1" by simp
    with express show ?thesis by (simp add: deliveryOptions_def)
  next
    case maxim
    have "selectedDeliveryDetails ''maxim'' = Some (deliveryOptions ! 2)"
      by (simp add: selectedDeliveryDetails_def deliveryOptions_def)
    with assms maxim have "details = deliveryOptions ! 2" by simp
    with maxim show ?thesis by (simp add: deliveryOptions_def)
  next
    case other
    then have "selectedDeliveryDetails option = None"
      by (simp add: selectedDeliveryDetails_def deliveryOptions_def)
    with assms show ?thesis by simp
  qed
qed

text \<open>
  C8. The fee of a delivery option comes from the fixed table under the option's
  identifier: 50 for \<open>standard\<close>, 100 for \<open>express\<close>, 150 for the same-day option, whose
  identifier is \<open>maxim\<close>. The estimated delivery date of a listed option is today plus
  the option's maximum number of business days (5, 2 and 1): it is later than today, it is
  not a Saturday or a Sunday, and exactly that many business days lie after today up to it.
\<close>

theorem delivery_fee_and_estimate:
  "selectedDeliveryFee ''standard'' = 50
   \<and> selectedDeliveryFee ''express'' = 100
   \<and> selectedDeliveryFee ''maxim'' = 150
   \<and> calculateEstimatedDelivery today ''standard'' = Some (addBusinessDays today 5)
   \<and> calculateEstimatedDelivery today ''express'' = Some (addBusinessDays today 2)
   \<and> calculateEstimatedDelivery today ''maxim'' = Some (addBusinessDays today 1)
   \<and> (\<forall>details. selectedDeliveryDetails option = Some details \<longrightarrow>
         selectedDeliveryFee option = do_fee details
         \<and> (\<exists>estimate. calculateEstimatedDelivery today option = Some estimate
               \<and> estimate = addBusinessDays today (do_maxDays details)
               \<and> today < estimate
               \<and> \<not> isWeekend estimate
               \<and> length (filter (\<lambda>day. \<not> isWeekend day) [today + 1..estimate])
                   = do_maxDays details))"
proof -
  have table: "calculateEstimatedDelivery today ''standard'' = Some (addBusinessDays today 5)"
    "calculateEstimatedDelivery today ''express'' = Some (addBusinessDays today 2)"
    "calculateEstimatedDelivery today ''maxim'' = Some (addBusinessDays today 1)"
    by (simp_all add: calculateEstimatedDelivery_def selectedDeliveryDetails_def
          deliveryOptions_def)
  have listed: "selectedDeliveryFee option = do_fee details
      \<and> (\<exists>estimate. calculateEstimatedDelivery today option = Some estimate
            \<and> estimate = addBusinessDays today (do_maxDays details)
            \<and> today < estimate
            \<and> \<not> isWeekend estimate
            \<and> length (filter (\<lambda>day. \<not> isWeekend day) [today + 1..estimate])
                = do_maxDays details)"
    if d: "selectedDeliveryDetails option = Some details" for details
  proof -
    from selectedDeliveryDetails_cases [OF d] have pos: "0 < do_maxDays details"
      and fee: "selectedDeliveryFee option = do_fee details"
      by (auto simp: selectedDeliveryFee_table)
    from pos obtain m where m: "do_maxDays details = Suc m"
      by (cases "do_maxDays details") auto
    have "today < nextBusinessDay today" by (rule nextBusinessDay_later)
    also have "\<dots> \<le> addBusinessDays today (do_maxDays details)"
      using addBusinessDays_later [of "nextBusinessDay today" m] by (simp add: m)
    finally have later: "today < addBusinessDays today (do_maxDays details)" .
    show ?thesis
      using fee later addBusinessDays_weekday [OF pos, of today]
            addBusinessDays_count [of today "do_maxDays details"]
      by (simp add: calculateEstimatedDelivery_def d)
  qed
  show ?thesis
    using table listed by (simp add: selectedDeliveryFee_table)
qed

theorem delivery_fee_and_estimate_witness:
  "selectedDeliveryDetails ''maxim'' = Some (deliveryOptions ! 2)
   \<and> isWeekend 2 \<and> isWeekend 3
   \<and> selectedDeliveryFee ''maxim'' = 150
   \<and> calculateEstimatedDelivery 1 ''maxim'' = Some 4"
proof -
  have d: "selectedDeliveryDetails ''maxim'' = Some (deliveryOptions ! 2)"
    by (simp add: selectedDeliveryDetails_def deliveryOptions_def)
  have e: "addBusinessDays 1 (Suc 0) = 4"
    by (simp add: nextBusinessDay_def isWeekend_def)
  have m: "do_maxDays (deliveryOptions ! 2) = Suc 0"
    by (simp add: deliveryOptions_def)
  from delivery_fee_and_estimate [of 1 "''maxim''"] d
  have "calculateEstimatedDelivery 1 ''maxim''
          = Some (addBusinessDays 1 (do_maxDays (deliveryOptions ! 2)))"
    and "selectedDeliveryFee ''maxim'' = 150"
    by auto
  with d e m show ?thesis by (simp add: isWeekend_def)
qed

section \<open>Cancelling\<close>

text \<open>
  C4. A buyer's cancellation goes through only for an order the card shows as
  \<open>processing\<close>. For an order in any other status (pending, payment approved, shipped,
  delivered, cancelled) the handler answers that only processing orders can be cancelled
  and writes nothing, so the order's status stays as it is; for a processing order of a
  signed-in buyer, an accepted update sets the status to cancelled.
\<close>

theorem cancel_only_when_processing:
  "(co_status order \<noteq> Processing \<longrightarrow>
      \<not> canBeCancelled order
      \<and> handleCancelOrder be order d = (Only_processing_can_be_cancelled, d))
   \<and> (fst (handleCancelOrder be order d) = Order_cancelled \<longrightarrow> co_status order = Processing)
   \<and> (snd (handleCancelOrder be order d) \<noteq> d \<longrightarrow> co_status order = Processing)
   \<and> (co_status order = Processing \<and> be_getUser be = Resolved (Some user_id) e
        \<and> be_update_order be = Succeeds \<longrightarrow>
      handleCancelOrder be order d =
        (Order_cancelled,
         d\<lparr>orders := map (\<lambda>row. if o_id row = co_id order \<and> o_buyer_id row = user_id
                                  then row\<lparr>o_status := Cancelled\<rparr> else row) (orders d)\<rparr>))"
  by (auto simp: handleCancelOrder_def canBeCancelled_def cancel_order_row_def answer_def
        applied_def)

theorem cancel_only_when_processing_witness:
  "co_status \<lparr>co_id = ''order-0001'', co_status = Shipped\<rparr> \<noteq> Processing
   \<and> handleCancelOrder sample_backend \<lparr>co_id = ''order-0001'', co_status = Shipped\<rparr> (sample_db 3)
       = (Only_processing_can_be_cancelled, sample_db 3)"
  using cancel_only_when_processing
          [of "\<lparr>co_id = ''order-0001'', co_status = Shipped\<rparr>" sample_backend "sample_db 3"]
  by simp

section \<open>The inventory loop\<close>

lemma decrementStock_skipped:
  "\<not> decremented be d item \<Longrightarrow> decrementStock be order_id now item d = d"
  by (cases "be_select_product be (ci_id item)"; cases "be_update_stock be (ci_id item)";
      cases "products d (ci_id item)")
     (simp_all add: decremented_def decrementStock_def select_product_def update_stock_def
        answer_def applied_def single_def Let_def)

lemma decrementStock_decremented:
  assumes dec: "decremented be d item" and p: "products d (ci_id item) = Some p"
  shows "decrementStock be order_id now item d =
           d\<lparr>products := (products d)(ci_id item \<mapsto> p\<lparr>pd_stock_quantity := newStock p item\<rparr>),
             inventory_logs := inventory_logs d @
               (if be_insert_log be (ci_id item) = Succeeds
                then [logEntry order_id now p item] else []),
             rpc_calls := rpc_calls d @
               (if reachesStockCheck be item \<and> 0 < newStock p item \<and> newStock p item \<le> threshold
                then [Low_stock (pd_seller_id p) (pd_name p) (ci_id item) (newStock p item)
                        threshold order_id]
                else [])\<rparr>"
proof -
  from dec have s: "be_select_product be (ci_id item) = Succeeds"
    and u: "be_update_stock be (ci_id item) = Succeeds"
    by (simp_all add: decremented_def)
  show ?thesis
  proof (cases "be_insert_log be (ci_id item)")
    case Succeeds
    show ?thesis
      by (cases "be_select_product_name be (ci_id item)")
         (simp_all add: decrementStock_def select_product_def select_product_name_def
            update_stock_def insert_log_def answer_def applied_def single_def Let_def
            or_zero_def newStock_def logEntry_def reachesStockCheck_def rpc_def s u p Succeeds)
  next
    case (Fails e)
    show ?thesis
      by (cases "be_select_product_name be (ci_id item)")
         (simp_all add: decrementStock_def select_product_def select_product_name_def
            update_stock_def insert_log_def answer_def applied_def single_def Let_def
            or_zero_def newStock_def logEntry_def reachesStockCheck_def rpc_def s u p Fails)
  next
    case (Throws e)
    show ?thesis
      by (simp add: decrementStock_def select_product_def select_product_name_def
            update_stock_def insert_log_def answer_def applied_def single_def Let_def
            or_zero_def newStock_def logEntry_def reachesStockCheck_def rpc_def s u p Throws)
  qed
qed

lemma decrementStock_cases:
  obtains (skipped) "\<not> decremented be d item" "decrementStock be order_id now item d = d"
  | (written) p where "decremented be d item" "products d (ci_id item) = Some p"
      "decrementStock be order_id now item d =
           d\<lparr>products := (products d)(ci_id item \<mapsto> p\<lparr>pd_stock_quantity := newStock p item\<rparr>),
             inventory_logs := inventory_logs d @
               (if be_insert_log be (ci_id item) = Succeeds
                then [logEntry order_id now p item] else []),
             rpc_calls := rpc_calls d @
               (if reachesStockCheck be item \<and> 0 < newStock p item \<and> newStock p item \<le> threshold
                then [Low_stock (pd_seller_id p) (pd_name p) (ci_id item) (newStock p item)
                        threshold order_id]
                else [])\<rparr>"
proof (cases "decremented be d item")
  case False
  then show ?thesis using decrementStock_skipped skipped by blast
next
  case True
  then obtain p where "products d (ci_id item) = Some p"
    by (auto simp: decremented_def)
  with True show ?thesis using decrementStock_decremented written by blast
qed

lemma decrementStock_frame:
  "orders (decrementStock be order_id now item d) = orders d"
  "order_items (decrementStock be order_id now item d) = order_items d"
  "profiles (decrementStock be order_id now item d) = profiles d"
  "seller_customers (decrementStock be order_id now item d) = seller_customers d"
  by (cases rule: decrementStock_cases [of be d item order_id now]; simp)+

lemma decrementStock_view_other:
  assumes "i \<noteq> ci_id item"
  shows "productView i (decrementStock be order_id now item d) = productView i d"
proof (cases rule: decrementStock_cases [of be d item order_id now])
  case skipped
  then show ?thesis by simp
next
  case (written p)
  with assms show ?thesis
    by (simp add: productView_def logsOf_def lowStockCalls_def logEntry_def)
qed

lemma decremented_view:
  "productView (ci_id item) d' = productView (ci_id item) d \<Longrightarrow>
     decremented be d' item = decremented be d item"
  by (simp add: productView_def decremented_def)

lemma decrementStock_view_frame:
  assumes v: "productView (ci_id item) d' = productView (ci_id item) d"
  shows "productView (ci_id item) (decrementStock be order_id now item d')
         = productView (ci_id item) (decrementStock be order_id now item d)"
proof (cases "decremented be d item")
  case False
  with decremented_view [OF v] have "\<not> decremented be d' item" by simp
  with False v show ?thesis by (simp add: decrementStock_skipped)
next
  case True
  with decremented_view [OF v] have d': "decremented be d' item" by simp
  from True obtain p where p: "products d (ci_id item) = Some p"
    by (auto simp: decremented_def)
  with v have p': "products d' (ci_id item) = Some p" by (simp add: productView_def)
  from v show ?thesis
    by (simp add: decrementStock_decremented [OF True p] decrementStock_decremented [OF d' p']
          productView_def logsOf_def lowStockCalls_def)
qed

lemma updateInventory_frame:
  "orders (updateInventory be order_id now cart d) = orders d"
  "order_items (updateInventory be order_id now cart d) = order_items d"
  by (induction cart arbitrary: d) (simp_all add: decrementStock_frame)

lemma updateInventory_view_other:
  "i \<notin> ci_id ` set cart \<Longrightarrow>
     productView i (updateInventory be order_id now cart d) = productView i d"
  by (induction cart arbitrary: d) (simp_all add: decrementStock_view_other)

lemma updateInventory_view_item:
  assumes "distinct (map ci_id cart)" and "item \<in> set cart"
  shows "productView (ci_id item) (updateInventory be order_id now cart d)
         = productView (ci_id item) (decrementStock be order_id now item d)"
  using assms
proof (induction cart arbitrary: d)
  case Nil
  then show ?case by simp
next
  case (Cons x xs)
  show ?case
  proof (cases "item = x")
    case True
    from Cons.prems have "ci_id x \<notin> ci_id ` set xs" by simp
    with True show ?thesis by (simp add: updateInventory_view_other)
  next
    case False
    with Cons.prems have in_xs: "item \<in> set xs" and d: "distinct (map ci_id xs)"
      and fresh: "ci_id x \<notin> ci_id ` set xs"
      by auto
    from in_xs fresh have ne: "ci_id item \<noteq> ci_id x"
      by (metis imageI)
    have "productView (ci_id item) (updateInventory be order_id now (x # xs) d)
          = productView (ci_id item)
              (decrementStock be order_id now item (decrementStock be order_id now x d))"
      using Cons.IH [OF d in_xs] by simp
    also have "\<dots> = productView (ci_id item) (decrementStock be order_id now item d)"
      by (rule decrementStock_view_frame) (rule decrementStock_view_other [OF ne])
    finally show ?thesis .
  qed
qed

section \<open>Placing an order\<close>

lemma createOrder_orderService_placed:
  assumes "createOrder_orderService be now orderData cartItems d = (Inr (Some oid), d')"
  obtains user_id e row where
    "be_getUser be = Resolved (Some user_id) e"
    "validatedOrderData user_id now orderData = Inr row"
    "be_insert_order be = Succeeds"
    "oid = be_new_order_id be"
    "d' = notifySeller orderData oid
            (case cartItems of
               None \<Rightarrow> d\<lparr>orders := orders d @ [row\<lparr>o_id := oid\<rparr>]\<rparr>
             | Some cart \<Rightarrow>
                 if cart = [] then d\<lparr>orders := orders d @ [row\<lparr>o_id := oid\<rparr>]\<rparr>
                 else updateInventory be oid now cart
                        (applied (be_insert_order_items be)
                           (d\<lparr>orders := orders d @ [row\<lparr>o_id := oid\<rparr>],
                              order_items := order_items d @ orderItemsFor oid cart\<rparr>)
                           (d\<lparr>orders := orders d @ [row\<lparr>o_id := oid\<rparr>]\<rparr>)))"
proof (cases "be_getUser be")
  case (Rejected e)
  with assms show ?thesis by (simp add: createOrder_orderService_def)
next
  case (Resolved user e)
  show ?thesis
  proof (cases user)
    case None
    with assms Resolved show ?thesis by (simp add: createOrder_orderService_def)
  next
    case (Some user_id)
    show ?thesis
    proof (cases "validatedOrderData user_id now orderData")
      case (Inl msg)
      with assms Resolved Some show ?thesis by (simp add: createOrder_orderService_def)
    next
      case (Inr row)
      show ?thesis
      proof (cases "be_insert_order be")
        case Succeeds
        have res: "insert_order be row d =
            (Resolved (Some (row\<lparr>o_id := be_new_order_id be\<rparr>)) None,
             d\<lparr>orders := orders d @ [row\<lparr>o_id := be_new_order_id be\<rparr>]\<rparr>)"
          by (simp add: insert_order_def answer_def applied_def Succeeds)
        from assms have oid: "oid = be_new_order_id be"
          by (simp add: createOrder_orderService_def Resolved Some Inr res
                split: option.splits if_splits prod.splits reply.splits)
        from assms have "d' = notifySeller orderData oid
            (case cartItems of
               None \<Rightarrow> d\<lparr>orders := orders d @ [row\<lparr>o_id := oid\<rparr>]\<rparr>
             | Some cart \<Rightarrow>
                 if cart = [] then d\<lparr>orders := orders d @ [row\<lparr>o_id := oid\<rparr>]\<rparr>
                 else updateInventory be oid now cart
                        (applied (be_insert_order_items be)
                           (d\<lparr>orders := orders d @ [row\<lparr>o_id := oid\<rparr>],
                              order_items := order_items d @ orderItemsFor oid cart\<rparr>)
                           (d\<lparr>orders := orders d @ [row\<lparr>o_id := oid\<rparr>]\<rparr>)))"
          by (cases "be_insert_order_items be")
             (auto simp: createOrder_orderService_def Resolved Some Inr res oid
                insert_order_items_def answer_def applied_def
                split: option.splits if_splits)
        with that Resolved Some Inr Succeeds oid show ?thesis by blast
      next
        case (Fails msg)
        with assms Resolved Some Inr show ?thesis
          by (simp add: createOrder_orderService_def insert_order_def answer_def applied_def)
      next
        case (Throws msg)
        with assms Resolved Some Inr show ?thesis
          by (simp add: createOrder_orderService_def insert_order_def answer_def applied_def)
      qed
    qed
  qed
qed

lemma or_zero_id: "or_zero x = x"
  by (simp add: or_zero_def)

lemma notifySeller_frame:
  "orders (notifySeller orderData oid d) = orders d"
  "order_items (notifySeller orderData oid d) = order_items d"
  "products (notifySeller orderData oid d) = products d"
  "inventory_logs (notifySeller orderData oid d) = inventory_logs d"
  "productView i (notifySeller orderData oid d) = productView i d"
  by (simp_all add: notifySeller_def createNewOrderNotification_def rpc_def productView_def
        logsOf_def lowStockCalls_def split: option.splits)

lemma applied_frame:
  "products (applied oc (d\<lparr>orders := a, order_items := b\<rparr>) (d\<lparr>orders := a\<rparr>)) = products d"
  "productView i (applied oc (d\<lparr>orders := a, order_items := b\<rparr>) (d\<lparr>orders := a\<rparr>))
     = productView i d"
  "orders (applied oc (d\<lparr>orders := a, order_items := b\<rparr>) (d\<lparr>orders := a\<rparr>)) = a"
  "order_items (applied oc (d\<lparr>orders := a, order_items := b\<rparr>) (d\<lparr>orders := a\<rparr>))
     = (if oc = Succeeds then b else order_items d)"
  by (simp_all add: applied_def productView_def logsOf_def lowStockCalls_def)

lemma orderItemsFor_prices:
  "map oi_total_price (orderItemsFor oid cart)
     = map (\<lambda>item. ci_price item * ci_quantity item) cart"
  by (simp add: orderItemsFor_def)

lemma validatedOrderData_row:
  assumes "validatedOrderData user_id now orderData = Inr row"
  shows "o_status row = Pending"
    and "o_total_amount row = (case od_total_amount orderData of None \<Rightarrow> 0 | Some t \<Rightarrow> t)"
    and "o_seller_id row = od_seller_id orderData"
    and "o_id row = []"
  using assms unfolding validatedOrderData_def Let_def
  by (auto simp: or_zero_id split: if_splits option.splits)

lemma validatedOrderData_payment_status:
  assumes "validatedOrderData user_id now orderData = Inr row"
  shows "o_payment_status row =
           (if od_payment_method orderData = Some ''stripe''
            then (if od_payment_status orderData = Some ''succeeded'' then Some ''paid''
                  else if truthy (od_payment_status orderData) then od_payment_status orderData
                  else Some ''pending'')
            else if od_payment_method orderData = Some ''cod'' then Some ''pending''
            else if truthy (od_payment_status orderData) then od_payment_status orderData
            else Some ''pending'')"
proof -
  let ?ps = "if truthy (od_payment_status orderData) then od_payment_status orderData
             else Some ''pending''"
  from assms have "o_payment_status row =
      (if od_payment_method orderData = Some ''stripe''
       then (if ?ps = Some ''succeeded'' then Some ''paid'' else ?ps)
       else if od_payment_method orderData = Some ''cod'' then Some ''pending'' else ?ps)"
    unfolding validatedOrderData_def Let_def
    by (cases "truthy (od_payment_method orderData)";
        cases "truthy (od_shipping_address orderData)";
        cases "truthy (od_billing_address orderData)") auto
  moreover have "(?ps = Some ''succeeded'') = (od_payment_status orderData = Some ''succeeded'')"
    by (cases "od_payment_status orderData") auto
  ultimately show ?thesis by simp
qed

lemma createOrder_orderService_rows:
  assumes "createOrder_orderService be now orderData cartItems d = (Inr (Some oid), d')"
  obtains user_id row where
    "validatedOrderData user_id now orderData = Inr row"
    "oid = be_new_order_id be"
    "orders d' = orders d @ [row\<lparr>o_id := oid\<rparr>]"
    "order_items d' = order_items d @
       (case cartItems of
          None \<Rightarrow> []
        | Some cart \<Rightarrow> if be_insert_order_items be = Succeeds then orderItemsFor oid cart else [])"
proof -
  from assms obtain user_id e row where
    v: "validatedOrderData user_id now orderData = Inr row"
    and oid: "oid = be_new_order_id be"
    and d': "d' = notifySeller orderData oid
            (case cartItems of
               None \<Rightarrow> d\<lparr>orders := orders d @ [row\<lparr>o_id := oid\<rparr>]\<rparr>
             | Some cart \<Rightarrow>
                 if cart = [] then d\<lparr>orders := orders d @ [row\<lparr>o_id := oid\<rparr>]\<rparr>
                 else updateInventory be oid now cart
                        (applied (be_insert_order_items be)
                           (d\<lparr>orders := orders d @ [row\<lparr>o_id := oid\<rparr>],
                              order_items := order_items d @ orderItemsFor oid cart\<rparr>)
                           (d\<lparr>orders := orders d @ [row\<lparr>o_id := oid\<rparr>]\<rparr>)))"
    by (rule createOrder_orderService_placed)
  have "orders d' = orders d @ [row\<lparr>o_id := oid\<rparr>]"
    by (cases cartItems)
       (simp_all add: d' notifySeller_frame updateInventory_frame applied_frame)
  moreover have "order_items d' = order_items d @
       (case cartItems of
          None \<Rightarrow> []
        | Some cart \<Rightarrow> if be_insert_order_items be = Succeeds then orderItemsFor oid cart else [])"
    by (cases cartItems)
       (simp_all add: d' notifySeller_frame updateInventory_frame applied_frame
          orderItemsFor_def)
  ultimately show ?thesis using that v oid by blast
qed

lemma createOrder_orderService_view:
  assumes "createOrder_orderService be now orderData (Some cart) d = (Inr (Some oid), d')"
    and "distinct (map ci_id cart)" and "item \<in> set cart"
  shows "productView (ci_id item) d'
         = productView (ci_id item) (decrementStock be oid now item d)"
proof -
  from assms(1) obtain user_id e row where
    d': "d' = notifySeller orderData oid
            (case Some cart of
               None \<Rightarrow> d\<lparr>orders := orders d @ [row\<lparr>o_id := oid\<rparr>]\<rparr>
             | Some cart \<Rightarrow>
                 if cart = [] then d\<lparr>orders := orders d @ [row\<lparr>o_id := oid\<rparr>]\<rparr>
                 else updateInventory be oid now cart
                        (applied (be_insert_order_items be)
                           (d\<lparr>orders := orders d @ [row\<lparr>o_id := oid\<rparr>],
                              order_items := order_items d @ orderItemsFor oid cart\<rparr>)
                           (d\<lparr>orders := orders d @ [row\<lparr>o_id := oid\<rparr>]\<rparr>)))"
    by (rule createOrder_orderService_placed)
  from assms(3) have ne: "cart \<noteq> []" by auto
  let ?d2 = "applied (be_insert_order_items be)
               (d\<lparr>orders := orders d @ [row\<lparr>o_id := oid\<rparr>],
                  order_items := order_items d @ orderItemsFor oid cart\<rparr>)
               (d\<lparr>orders := orders d @ [row\<lparr>o_id := oid\<rparr>]\<rparr>)"
  have "productView (ci_id item) d' = productView (ci_id item) (updateInventory be oid now cart ?d2)"
    using ne by (simp add: d' notifySeller_frame)
  also have "\<dots> = productView (ci_id item) (decrementStock be oid now item ?d2)"
    by (rule updateInventory_view_item [OF assms(2,3)])
  also have "\<dots> = productView (ci_id item) (decrementStock be oid now item d)"
    by (rule decrementStock_view_frame) (rule applied_frame)
  finally show ?thesis .
qed


lemma createOrder_orderService_succeeds:
  assumes "be_getUser be = Resolved (Some user_id) e"
    and "validatedOrderData user_id now orderData = Inr row"
    and "be_insert_order be = Succeeds"
    and "be_new_order_id be \<noteq> []"
    and "\<not> throws (be_insert_order_items be)"
  shows "createOrder_orderService be now orderData cartItems d =
           (Inr (Some (be_new_order_id be)),
            notifySeller orderData (be_new_order_id be)
              (case cartItems of
                 None \<Rightarrow> d\<lparr>orders := orders d @ [row\<lparr>o_id := be_new_order_id be\<rparr>]\<rparr>
               | Some cart \<Rightarrow>
                   if cart = [] then d\<lparr>orders := orders d @ [row\<lparr>o_id := be_new_order_id be\<rparr>]\<rparr>
                   else updateInventory be (be_new_order_id be) now cart
                          (applied (be_insert_order_items be)
                             (d\<lparr>orders := orders d @ [row\<lparr>o_id := be_new_order_id be\<rparr>],
                                order_items := order_items d
                                  @ orderItemsFor (be_new_order_id be) cart\<rparr>)
                             (d\<lparr>orders := orders d @ [row\<lparr>o_id := be_new_order_id be\<rparr>]\<rparr>))))"
proof -
  have res: "insert_order be row d =
      (Resolved (Some (row\<lparr>o_id := be_new_order_id be\<rparr>)) None,
       d\<lparr>orders := orders d @ [row\<lparr>o_id := be_new_order_id be\<rparr>]\<rparr>)"
    by (simp add: insert_order_def answer_def applied_def assms(3))
  show ?thesis
  proof (cases cartItems)
    case None
    with assms res show ?thesis by (simp add: createOrder_orderService_def)
  next
    case (Some cart)
    with assms res show ?thesis
      by (cases "be_insert_order_items be")
         (simp_all add: createOrder_orderService_def insert_order_items_def answer_def
            applied_def)
  qed
qed

lemma sample_validated:
  "validatedOrderData ''u1'' now sample_order =
     Inr \<lparr>o_id = [], o_buyer_id = ''u1'', o_seller_id = Some ''seller-42'',
          o_status = Pending, o_total_amount = 1150, o_created_at = now,
          o_updated_at = Some now, o_payment_method = ''cod'',
          o_payment_status = Some ''pending'',
          o_shipping_address = ''Ana Cruz, 1 Rizal St, Cebu, Cebu 6000, Phone: 0917'',
          o_billing_address = ''Ana Cruz, 1 Rizal St, Cebu, Cebu 6000, Phone: 0917'',
          o_estimated_delivery = None, o_tracking_number = None, o_tracking_url = None,
          o_delivery_option = Some ''maxim'', o_payment_intent_id = None\<rparr>"
  by (simp add: validatedOrderData_def sample_order_def or_zero_def)

text \<open>The sample order on a backend that differs from the sample one at most in the log
  insert and in reading the product's name back.\<close>

lemma sample_line:
  assumes "be = sample_backend\<lparr>be_insert_log := l, be_select_product_name := n\<rparr>"
  shows "decremented be (sample_db stock) sample_item"
    and "products (sample_db stock) (ci_id sample_item)
           = Some \<lparr>pd_stock_quantity = stock, pd_is_available = True,
                   pd_seller_id = Some ''seller-42'', pd_name = ''Mug''\<rparr>"
  by (simp_all add: assms decremented_def sample_backend_def sample_db_def sample_item_def)

lemma sample_order_placed:
  assumes "be = sample_backend\<lparr>be_insert_log := l, be_select_product_name := n\<rparr>"
  shows "createOrder_orderService be now sample_order (Some [sample_item]) (sample_db stock)
      = (Inr (Some ''order-0001''),
         snd (createOrder_orderService be now sample_order (Some [sample_item]) (sample_db stock)))"
    and "productView ''p1''
           (snd (createOrder_orderService be now sample_order (Some [sample_item]) (sample_db stock)))
         = productView ''p1'' (decrementStock be ''order-0001'' now sample_item (sample_db stock))"
proof -
  have be: "be_getUser be = Resolved (Some ''u1'') None" "be_insert_order be = Succeeds"
    "be_new_order_id be = ''order-0001''" "be_insert_order_items be = Succeeds"
    by (simp_all add: assms sample_backend_def)
  show run: "createOrder_orderService be now sample_order (Some [sample_item]) (sample_db stock)
      = (Inr (Some ''order-0001''),
         snd (createOrder_orderService be now sample_order (Some [sample_item]) (sample_db stock)))"
    using createOrder_orderService_succeeds
            [where cartItems = "Some [sample_item]" and d = "sample_db stock" and now = now,
             OF be(1) sample_validated be(2)]
    by (simp add: be)
  show "productView ''p1''
           (snd (createOrder_orderService be now sample_order (Some [sample_item]) (sample_db stock)))
         = productView ''p1'' (decrementStock be ''order-0001'' now sample_item (sample_db stock))"
    using createOrder_orderService_view [OF run, of sample_item]
    by (simp add: sample_item_def)
qed


text \<open>The loop does not read the order tables, and requests are only ever added.\<close>

lemma decrementStock_shift:
  "decrementStock be oid now item (d\<lparr>orders := a, order_items := b\<rparr>)
   = (decrementStock be oid now item d)\<lparr>orders := a, order_items := b\<rparr>"
proof (cases "decremented be d item")
  case False
  then have "\<not> decremented be (d\<lparr>orders := a, order_items := b\<rparr>) item"
    by (simp add: decremented_def)
  with False show ?thesis by (simp add: decrementStock_skipped)
next
  case True
  then obtain p where p: "products d (ci_id item) = Some p"
    by (auto simp: decremented_def)
  from True have dec: "decremented be (d\<lparr>orders := a, order_items := b\<rparr>) item"
    by (simp add: decremented_def)
  from p have p': "products (d\<lparr>orders := a, order_items := b\<rparr>) (ci_id item) = Some p"
    by simp
  show ?thesis
    by (simp add: decrementStock_decremented [OF True p] decrementStock_decremented [OF dec p'])
qed

lemma updateInventory_shift:
  "updateInventory be oid now cart (d\<lparr>orders := a, order_items := b\<rparr>)
   = (updateInventory be oid now cart d)\<lparr>orders := a, order_items := b\<rparr>"
  by (induction cart arbitrary: d) (simp_all add: decrementStock_shift)

lemma updateInventory_append:
  "updateInventory be oid now (xs @ ys) d
   = updateInventory be oid now ys (updateInventory be oid now xs d)"
  by (induction xs arbitrary: d) simp_all

lemma decrementStock_requests_grow:
  "\<exists>later. rpc_calls (decrementStock be oid now item d) = rpc_calls d @ later"
  by (cases rule: decrementStock_cases [of be d item oid now]) simp_all

lemma updateInventory_requests_grow:
  "\<exists>later. rpc_calls (updateInventory be oid now cart d) = rpc_calls d @ later"
proof (induction cart arbitrary: d)
  case Nil
  show ?case by simp
next
  case (Cons x xs)
  from decrementStock_requests_grow [of be oid now x d] obtain l1 where
    "rpc_calls (decrementStock be oid now x d) = rpc_calls d @ l1" ..
  moreover from Cons [of "decrementStock be oid now x d"] obtain l2 where
    "rpc_calls (updateInventory be oid now xs (decrementStock be oid now x d))
       = rpc_calls (decrementStock be oid now x d) @ l2" ..
  ultimately show ?case by simp
qed

lemma notifySeller_requests_grow:
  "\<exists>later. rpc_calls (notifySeller orderData oid d) = rpc_calls d @ later"
  by (simp add: notifySeller_def createNewOrderNotification_def rpc_def split: option.splits)

lemma applied_as_update:
  "applied oc (d\<lparr>orders := a, order_items := b\<rparr>) (d\<lparr>orders := a\<rparr>)
   = d\<lparr>orders := a, order_items := (if oc = Succeeds then b else order_items d)\<rparr>"
  by (simp add: applied_def)

lemma notifySeller_shift:
  "rpc_calls (notifySeller orderData oid (d\<lparr>orders := a, order_items := b\<rparr>))
   = rpc_calls (notifySeller orderData oid d)"
  by (simp add: notifySeller_def createNewOrderNotification_def rpc_def split: option.splits)

text \<open>The requests of a placed order: those made by the loop over the cart, run on the
  tables as they were before the order, and then the new-order request.\<close>

lemma createOrder_orderService_requests:
  assumes "createOrder_orderService be now orderData (Some cart) d = (Inr (Some oid), d')"
    and "cart \<noteq> []"
  shows "\<exists>later. rpc_calls d' = rpc_calls (updateInventory be oid now cart d) @ later"
proof -
  from assms(1) obtain user_id e row where
    d': "d' = notifySeller orderData oid
            (case Some cart of
               None \<Rightarrow> d\<lparr>orders := orders d @ [row\<lparr>o_id := oid\<rparr>]\<rparr>
             | Some cart \<Rightarrow>
                 if cart = [] then d\<lparr>orders := orders d @ [row\<lparr>o_id := oid\<rparr>]\<rparr>
                 else updateInventory be oid now cart
                        (applied (be_insert_order_items be)
                           (d\<lparr>orders := orders d @ [row\<lparr>o_id := oid\<rparr>],
                              order_items := order_items d @ orderItemsFor oid cart\<rparr>)
                           (d\<lparr>orders := orders d @ [row\<lparr>o_id := oid\<rparr>]\<rparr>)))"
    by (rule createOrder_orderService_placed)
  from assms(2) have "rpc_calls d' = rpc_calls (notifySeller orderData oid
                                                  (updateInventory be oid now cart d))"
    by (simp add: d' applied_as_update updateInventory_shift notifySeller_shift)
  with notifySeller_requests_grow [of orderData oid "updateInventory be oid now cart d"]
  show ?thesis by simp
qed

lemma sample_two_lines:
  "decrementStock sample_backend ''order-0001'' now sample_item (sample_db 8)
   = (sample_db 8)
       \<lparr>products := [''p1'' \<mapsto> \<lparr>pd_stock_quantity = 6, pd_is_available = True,
                                  pd_seller_id = Some ''seller-42'', pd_name = ''Mug''\<rparr>],
        inventory_logs :=
          [logEntry ''order-0001'' now
             \<lparr>pd_stock_quantity = 8, pd_is_available = True,
               pd_seller_id = Some ''seller-42'', pd_name = ''Mug''\<rparr> sample_item]\<rparr>"
proof -
  have be: "sample_backend = sample_backend\<lparr>be_insert_log := (\<lambda>i. Succeeds),
                                             be_select_product_name := (\<lambda>i. Succeeds)\<rparr>"
    by (simp add: sample_backend_def)
  note line = sample_line [where stock = 8, OF be]
  show ?thesis
    by (simp add: decrementStock_decremented [OF line])
       (simp add: sample_db_def sample_item_def newStock_def threshold_def sample_backend_def)
qed

section \<open>Stock, log entries and low-stock requests\<close>

text \<open>
  C2. Claimed: every product decremented during order creation ends at
  max(0, previous stock - ordered quantity) and gets exactly one inventory log entry. The
  stock part holds. The log entry is inserted after the stock update and a failed insert
  is only reported on the console: with a backend that refuses the log insert, the sample
  order takes the stock of p1 from 10 to 8 and leaves no log entry.
\<close>

theorem decrement_without_log_entry:
  "fst (createOrder_orderService
          (sample_backend\<lparr>be_insert_log := (\<lambda>i. Fails ''denied''),
                          be_select_product_name := (\<lambda>i. Succeeds)\<rparr>)
          ''t0'' sample_order (Some [sample_item]) (sample_db 10)) = Inr (Some ''order-0001'')
   \<and> stockOf ''p1'' (sample_db 10) = Some 10
   \<and> stockOf ''p1''
        (snd (createOrder_orderService
                (sample_backend\<lparr>be_insert_log := (\<lambda>i. Fails ''denied''),
                                be_select_product_name := (\<lambda>i. Succeeds)\<rparr>)
                ''t0'' sample_order (Some [sample_item]) (sample_db 10))) = Some 8
   \<and> logsOf ''p1''
        (snd (createOrder_orderService
                (sample_backend\<lparr>be_insert_log := (\<lambda>i. Fails ''denied''),
                                be_select_product_name := (\<lambda>i. Succeeds)\<rparr>)
                ''t0'' sample_order (Some [sample_item]) (sample_db 10))) = []"
proof -
  let ?be = "sample_backend\<lparr>be_insert_log := (\<lambda>i. Fails ''denied''),
                            be_select_product_name := (\<lambda>i. Succeeds)\<rparr>"
  note run = sample_order_placed
      [where l = "\<lambda>i. Fails ''denied''" and n = "\<lambda>i. Succeeds" and now = "''t0''"
         and stock = 10, OF refl]
  note line = sample_line
      [where l = "\<lambda>i. Fails ''denied''" and n = "\<lambda>i. Succeeds" and stock = 10, OF refl]
  have "productView ''p1''
          (snd (createOrder_orderService ?be ''t0'' sample_order (Some [sample_item]) (sample_db 10)))
        = (Some \<lparr>pd_stock_quantity = 8, pd_is_available = True,
                 pd_seller_id = Some ''seller-42'', pd_name = ''Mug''\<rparr>, [], [])"
    by (simp add: run(2) decrementStock_decremented [OF line])
       (simp add: productView_def logsOf_def lowStockCalls_def sample_db_def sample_item_def
          newStock_def reachesStockCheck_def threshold_def)
  moreover have "fst (createOrder_orderService ?be ''t0'' sample_order (Some [sample_item])
                        (sample_db 10)) = Inr (Some ''order-0001'')"
    using run(1) by (metis fst_conv)
  ultimately show ?thesis
    by (simp add: productView_def stockOf_def sample_db_def)
qed

text \<open>
  C2, as the code has it. For an order that \<open>createOrder\<close> places from a cart whose lines
  have distinct product ids, each decremented product ends at
  max(0, previous stock - ordered quantity), and the order adds at most one inventory log
  entry for it: exactly one, recording the previous quantity, the new quantity and the
  negated ordered quantity, when the backend accepts the log insert, and none otherwise.
\<close>

theorem stock_decrement_and_log:
  assumes placed: "createOrder_orderService be now orderData (Some cart) d = (Inr (Some oid), d')"
    and lines: "distinct (map ci_id cart)"
    and line: "item \<in> set cart"
    and dec: "decremented be d item"
  shows "\<exists>p. products d (ci_id item) = Some p
           \<and> stockOf (ci_id item) d' = Some (max 0 (pd_stock_quantity p - ci_quantity item))
           \<and> logsOf (ci_id item) d' = logsOf (ci_id item) d @
                (if be_insert_log be (ci_id item) = Succeeds
                 then [\<lparr>il_product_id = ci_id item,
                        il_previous_quantity = pd_stock_quantity p,
                        il_new_quantity = max 0 (pd_stock_quantity p - ci_quantity item),
                        il_change_quantity = - ci_quantity item,
                        il_reason = ''Order fulfillment (Order #'' @ take 8 oid @ '')'',
                        il_created_at = now,
                        il_created_by = pd_seller_id p\<rparr>]
                 else [])"
proof -
  from dec obtain p where p: "products d (ci_id item) = Some p"
    by (auto simp: decremented_def)
  have "productView (ci_id item) d' = productView (ci_id item) (decrementStock be oid now item d)"
    by (rule createOrder_orderService_view [OF placed lines line])
  then have "products d' (ci_id item) = Some (p\<lparr>pd_stock_quantity := newStock p item\<rparr>)"
    and "logsOf (ci_id item) d' = logsOf (ci_id item) d @
           (if be_insert_log be (ci_id item) = Succeeds then [logEntry oid now p item] else [])"
    by (simp_all add: decrementStock_decremented [OF dec p] productView_def logsOf_def
          logEntry_def)
  with p show ?thesis
    by (simp add: stockOf_def newStock_def logEntry_def)
qed


theorem stock_decrement_and_log_witness:
  "createOrder_orderService sample_backend ''t0'' sample_order (Some [sample_item]) (sample_db 10)
     = (Inr (Some ''order-0001''),
        snd (createOrder_orderService sample_backend ''t0'' sample_order (Some [sample_item])
               (sample_db 10)))
   \<and> distinct (map ci_id [sample_item])
   \<and> sample_item \<in> set [sample_item]
   \<and> decremented sample_backend (sample_db 10) sample_item
   \<and> stockOf ''p1''
        (snd (createOrder_orderService sample_backend ''t0'' sample_order (Some [sample_item])
                (sample_db 10))) = Some 8
   \<and> logsOf ''p1''
        (snd (createOrder_orderService sample_backend ''t0'' sample_order (Some [sample_item])
                (sample_db 10)))
       = [\<lparr>il_product_id = ''p1'', il_previous_quantity = 10, il_new_quantity = 8,
           il_change_quantity = - 2, il_reason = ''Order fulfillment (Order #order-00)'',
           il_created_at = ''t0'', il_created_by = Some ''seller-42''\<rparr>]"
proof -
  have be: "sample_backend = sample_backend\<lparr>be_insert_log := (\<lambda>i. Succeeds),
                                             be_select_product_name := (\<lambda>i. Succeeds)\<rparr>"
    by (simp add: sample_backend_def)
  note run = sample_order_placed [where now = "''t0''" and stock = 10, OF be]
  note line = sample_line [where stock = 10, OF be]
  have lines: "distinct (map ci_id [sample_item])" and mem: "sample_item \<in> set [sample_item]"
    by simp_all
  from stock_decrement_and_log [OF run(1) lines mem line(1)] line(2)
  have "stockOf ''p1''
          (snd (createOrder_orderService sample_backend ''t0'' sample_order (Some [sample_item])
                  (sample_db 10))) = Some 8"
    and "logsOf ''p1''
          (snd (createOrder_orderService sample_backend ''t0'' sample_order (Some [sample_item])
                  (sample_db 10)))
         = [\<lparr>il_product_id = ''p1'', il_previous_quantity = 10, il_new_quantity = 8,
             il_change_quantity = - 2, il_reason = ''Order fulfillment (Order #order-00)'',
             il_created_at = ''t0'', il_created_by = Some ''seller-42''\<rparr>]"
    by (auto simp: sample_item_def sample_backend_def sample_db_def logsOf_def)
  with run(1) lines mem line(1) show ?thesis by simp
qed

text \<open>
  C7. Claimed: a new stock at or below the threshold of 5 makes the loop request a
  low-stock notification for the seller. The test in the code is
  \<open>newQuantity > 0 && newQuantity <= threshold\<close>: a line that takes the stock to 0 requests
  nothing. The sample order of two mugs against a stock of two leaves the stock at 0 and
  makes no low-stock request.
\<close>

theorem no_low_stock_request_at_zero:
  "fst (createOrder_orderService sample_backend ''t0'' sample_order (Some [sample_item])
          (sample_db 2)) = Inr (Some ''order-0001'')
   \<and> reachesStockCheck sample_backend sample_item
   \<and> stockOf ''p1''
        (snd (createOrder_orderService sample_backend ''t0'' sample_order (Some [sample_item])
                (sample_db 2))) = Some 0
   \<and> (0 :: number) \<le> threshold
   \<and> lowStockCalls ''p1''
        (snd (createOrder_orderService sample_backend ''t0'' sample_order (Some [sample_item])
                (sample_db 2))) = []"
proof -
  have be: "sample_backend = sample_backend\<lparr>be_insert_log := (\<lambda>i. Succeeds),
                                             be_select_product_name := (\<lambda>i. Succeeds)\<rparr>"
    by (simp add: sample_backend_def)
  note run = sample_order_placed [where now = "''t0''" and stock = 2, OF be]
  note line = sample_line [where stock = 2, OF be]
  have "productView ''p1''
          (snd (createOrder_orderService sample_backend ''t0'' sample_order (Some [sample_item])
                  (sample_db 2)))
        = (Some \<lparr>pd_stock_quantity = 0, pd_is_available = True,
                 pd_seller_id = Some ''seller-42'', pd_name = ''Mug''\<rparr>,
           [logEntry ''order-0001'' ''t0''
              \<lparr>pd_stock_quantity = 2, pd_is_available = True,
                pd_seller_id = Some ''seller-42'', pd_name = ''Mug''\<rparr> sample_item],
           [])"
    by (simp add: run(2) decrementStock_decremented [OF line])
       (simp add: productView_def logsOf_def lowStockCalls_def sample_db_def sample_item_def
          newStock_def threshold_def sample_backend_def logEntry_def)
  moreover have "fst (createOrder_orderService sample_backend ''t0'' sample_order
                        (Some [sample_item]) (sample_db 2)) = Inr (Some ''order-0001'')"
    using run(1) by (metis fst_conv)
  moreover have "reachesStockCheck sample_backend sample_item"
    by (simp add: reachesStockCheck_def sample_backend_def)
  ultimately show ?thesis
    by (simp add: productView_def stockOf_def threshold_def)
qed

text \<open>
  C7, as the code has it. Take an order that \<open>createOrder\<close> places and any line of its
  cart; \<open>at_line\<close> holds the products and the requests as the loop finds them when it
  reaches the line: those the lines before it have left (the order row and the order items
  written before the loop change neither; with these order tables put in, \<open>at_line\<close> is
  the state the loop body runs on). If the line's product is decremented and its
  low-stock check is reached (the log insert did not throw and the product's name was read
  back), the line leaves the stock at max(0, stock found - quantity) and requests a
  low-stock notification for the product's seller exactly when this new stock is greater
  than 0 and at most 5; what the line requests stays among the requests of the finished
  order. For a cart with distinct product ids the stock found is the pre-order stock, and
  the low-stock requests recorded for the product grow by exactly that request.
\<close>

theorem low_stock_notification:
  assumes placed: "createOrder_orderService be now orderData (Some (before @ item # after)) d
                     = (Inr (Some oid), d')"
    and at_line: "at_line = updateInventory be oid now before d"
    and dec: "decremented be at_line item"
    and reached: "reachesStockCheck be item"
  shows "\<exists>p later.
           products at_line (ci_id item) = Some p
           \<and> stockOf (ci_id item) (decrementStock be oid now item at_line)
               = Some (max 0 (pd_stock_quantity p - ci_quantity item))
           \<and> rpc_calls (decrementStock be oid now item at_line) = rpc_calls at_line @
                (if 0 < max 0 (pd_stock_quantity p - ci_quantity item)
                    \<and> max 0 (pd_stock_quantity p - ci_quantity item) \<le> 5
                 then [Low_stock (pd_seller_id p) (pd_name p) (ci_id item)
                         (max 0 (pd_stock_quantity p - ci_quantity item)) 5 oid]
                 else [])
           \<and> d' = notifySeller orderData oid
                    (updateInventory be oid now after
                       (decrementStock be oid now item
                          (at_line\<lparr>orders := orders d', order_items := order_items d'\<rparr>)))
           \<and> rpc_calls d' = rpc_calls (decrementStock be oid now item at_line) @ later
           \<and> (distinct (map ci_id (before @ item # after)) \<longrightarrow>
                 products at_line (ci_id item) = products d (ci_id item)
                 \<and> stockOf (ci_id item) d'
                     = Some (max 0 (pd_stock_quantity p - ci_quantity item))
                 \<and> lowStockCalls (ci_id item) d' = lowStockCalls (ci_id item) d @
                      (if 0 < max 0 (pd_stock_quantity p - ci_quantity item)
                          \<and> max 0 (pd_stock_quantity p - ci_quantity item) \<le> 5
                       then [Low_stock (pd_seller_id p) (pd_name p) (ci_id item)
                               (max 0 (pd_stock_quantity p - ci_quantity item)) 5 oid]
                       else []))"
proof -
  let ?i = "ci_id item"
  let ?cart = "before @ item # after"
  from dec obtain p where p: "products at_line ?i = Some p"
    by (auto simp: decremented_def)
  let ?new = "max 0 (pd_stock_quantity p - ci_quantity item)"
  note line = decrementStock_decremented [OF dec p, of oid now]
  have stock: "stockOf ?i (decrementStock be oid now item at_line) = Some ?new"
    by (simp add: line stockOf_def newStock_def)
  have calls: "rpc_calls (decrementStock be oid now item at_line) = rpc_calls at_line @
      (if 0 < ?new \<and> ?new \<le> 5
       then [Low_stock (pd_seller_id p) (pd_name p) ?i ?new 5 oid] else [])"
    using reached by (simp add: line newStock_def threshold_def)
  have "updateInventory be oid now ?cart d
        = updateInventory be oid now after (decrementStock be oid now item at_line)"
    by (simp add: updateInventory_append at_line)
  with updateInventory_requests_grow [of be oid now after "decrementStock be oid now item at_line"]
  obtain l1 where "rpc_calls (updateInventory be oid now ?cart d)
                     = rpc_calls (decrementStock be oid now item at_line) @ l1"
    by auto
  moreover from createOrder_orderService_requests [OF placed]
  obtain l2 where "rpc_calls d' = rpc_calls (updateInventory be oid now ?cart d) @ l2"
    by auto
  ultimately have later: "rpc_calls d' = rpc_calls (decrementStock be oid now item at_line) @ (l1 @ l2)"
    by simp
  have run: "d' = notifySeller orderData oid
                    (updateInventory be oid now after
                       (decrementStock be oid now item
                          (at_line\<lparr>orders := orders d', order_items := order_items d'\<rparr>)))"
  proof -
    from placed obtain user_id e row where
      d': "d' = notifySeller orderData oid
              (case Some ?cart of
                 None \<Rightarrow> d\<lparr>orders := orders d @ [row\<lparr>o_id := oid\<rparr>]\<rparr>
               | Some cart \<Rightarrow>
                   if cart = [] then d\<lparr>orders := orders d @ [row\<lparr>o_id := oid\<rparr>]\<rparr>
                   else updateInventory be oid now cart
                          (applied (be_insert_order_items be)
                             (d\<lparr>orders := orders d @ [row\<lparr>o_id := oid\<rparr>],
                                order_items := order_items d @ orderItemsFor oid cart\<rparr>)
                             (d\<lparr>orders := orders d @ [row\<lparr>o_id := oid\<rparr>]\<rparr>)))"
      by (rule createOrder_orderService_placed)
    let ?a = "orders d @ [row\<lparr>o_id := oid\<rparr>]"
    let ?b = "if be_insert_order_items be = Succeeds
              then order_items d @ orderItemsFor oid ?cart else order_items d"
    have d'': "d' = notifySeller orderData oid
                     (updateInventory be oid now after
                        (decrementStock be oid now item (at_line\<lparr>orders := ?a, order_items := ?b\<rparr>)))"
      by (simp add: d' applied_as_update updateInventory_append updateInventory_shift
            decrementStock_shift at_line)
    then have "orders d' = ?a" and "order_items d' = ?b"
      by (simp_all add: notifySeller_frame updateInventory_frame decrementStock_frame)
    with d'' show ?thesis by simp
  qed
  have whole: "products at_line ?i = products d ?i
      \<and> stockOf ?i d' = Some ?new
      \<and> lowStockCalls ?i d' = lowStockCalls ?i d @
           (if 0 < ?new \<and> ?new \<le> 5
            then [Low_stock (pd_seller_id p) (pd_name p) ?i ?new 5 oid] else [])"
    if lines: "distinct (map ci_id ?cart)"
  proof -
    from lines have "?i \<notin> ci_id ` set before" by auto
    from updateInventory_view_other [OF this, of be oid now d]
    have v: "productView ?i at_line = productView ?i d" by (simp add: at_line)
    then have same: "products at_line ?i = products d ?i"
      by (simp add: productView_def)
    from dec decremented_view [OF v, of be] have dec0: "decremented be d item" by simp
    from p same have p0: "products d ?i = Some p" by simp
    have "productView ?i d' = productView ?i (decrementStock be oid now item d)"
      by (rule createOrder_orderService_view [OF placed lines]) simp
    then have "products d' ?i = Some (p\<lparr>pd_stock_quantity := newStock p item\<rparr>)"
      and "lowStockCalls ?i d' = lowStockCalls ?i d @
             (if 0 < newStock p item \<and> newStock p item \<le> threshold
              then [Low_stock (pd_seller_id p) (pd_name p) ?i (newStock p item) threshold oid]
              else [])"
      using reached
      by (simp_all add: decrementStock_decremented [OF dec0 p0] productView_def
            lowStockCalls_def)
    with same show ?thesis
      by (simp add: stockOf_def newStock_def threshold_def)
  qed
  from p stock calls run later whole show ?thesis by blast
qed

theorem low_stock_notification_witness:
  "createOrder_orderService sample_backend ''t0'' sample_order
     (Some ([sample_item] @ sample_item # [])) (sample_db 8)
     = (Inr (Some ''order-0001''),
        snd (createOrder_orderService sample_backend ''t0'' sample_order
               (Some ([sample_item] @ sample_item # [])) (sample_db 8)))
   \<and> decremented sample_backend
        (updateInventory sample_backend ''order-0001'' ''t0'' [sample_item] (sample_db 8))
        sample_item
   \<and> reachesStockCheck sample_backend sample_item
   \<and> stockOf ''p1''
        (updateInventory sample_backend ''order-0001'' ''t0'' [sample_item] (sample_db 8))
       = Some 6
   \<and> rpc_calls
        (updateInventory sample_backend ''order-0001'' ''t0'' [sample_item] (sample_db 8)) = []
   \<and> stockOf ''p1''
        (decrementStock sample_backend ''order-0001'' ''t0'' sample_item
           (updateInventory sample_backend ''order-0001'' ''t0'' [sample_item] (sample_db 8)))
       = Some 4
   \<and> rpc_calls
        (decrementStock sample_backend ''order-0001'' ''t0'' sample_item
           (updateInventory sample_backend ''order-0001'' ''t0'' [sample_item] (sample_db 8)))
       = [Low_stock (Some ''seller-42'') ''Mug'' ''p1'' 4 5 ''order-0001'']
   \<and> take 1
        (rpc_calls (snd (createOrder_orderService sample_backend ''t0'' sample_order
                           (Some ([sample_item] @ sample_item # [])) (sample_db 8))))
       = [Low_stock (Some ''seller-42'') ''Mug'' ''p1'' 4 5 ''order-0001'']"
proof -
  let ?at = "updateInventory sample_backend ''order-0001'' ''t0'' [sample_item] (sample_db 8)"
  let ?run = "createOrder_orderService sample_backend ''t0'' sample_order
                (Some ([sample_item] @ sample_item # [])) (sample_db 8)"
  have be: "be_getUser sample_backend = Resolved (Some ''u1'') None"
    "be_insert_order sample_backend = Succeeds" "be_new_order_id sample_backend = ''order-0001''"
    "be_insert_order_items sample_backend = Succeeds"
    by (simp_all add: sample_backend_def)
  have placed: "?run = (Inr (Some ''order-0001''), snd ?run)"
    using createOrder_orderService_succeeds
            [where cartItems = "Some ([sample_item] @ sample_item # [])" and d = "sample_db 8"
               and now = "''t0''", OF be(1) sample_validated be(2)]
    by (simp add: be)
  have at: "?at = decrementStock sample_backend ''order-0001'' ''t0'' sample_item (sample_db 8)"
    by simp
  have stock: "products ?at ''p1''
      = Some \<lparr>pd_stock_quantity = 6, pd_is_available = True,
              pd_seller_id = Some ''seller-42'', pd_name = ''Mug''\<rparr>"
    unfolding at sample_two_lines by simp
  have none: "rpc_calls ?at = []"
    unfolding at sample_two_lines by (simp add: sample_db_def)
  have line_id: "ci_id sample_item = ''p1''"
    by (simp add: sample_item_def)
  have calls: "be_select_product sample_backend ''p1'' = Succeeds"
    "be_update_stock sample_backend ''p1'' = Succeeds"
    by (simp_all add: sample_backend_def)
  have dec: "decremented sample_backend ?at sample_item"
    unfolding decremented_def line_id stock calls by simp
  have reached: "reachesStockCheck sample_backend sample_item"
    by (simp add: reachesStockCheck_def sample_backend_def)
  have qty: "ci_quantity sample_item = 2"
    by (simp add: sample_item_def)
  from low_stock_notification [OF placed refl dec reached]
  obtain p later where
    p: "products ?at (ci_id sample_item) = Some p"
    and s0: "stockOf (ci_id sample_item)
               (decrementStock sample_backend ''order-0001'' ''t0'' sample_item ?at)
             = Some (max 0 (pd_stock_quantity p - ci_quantity sample_item))"
    and c0: "rpc_calls (decrementStock sample_backend ''order-0001'' ''t0'' sample_item ?at)
             = rpc_calls ?at @
                (if 0 < max 0 (pd_stock_quantity p - ci_quantity sample_item)
                    \<and> max 0 (pd_stock_quantity p - ci_quantity sample_item) \<le> 5
                 then [Low_stock (pd_seller_id p) (pd_name p) (ci_id sample_item)
                         (max 0 (pd_stock_quantity p - ci_quantity sample_item)) 5 ''order-0001'']
                 else [])"
    and l: "rpc_calls (snd ?run)
          = rpc_calls (decrementStock sample_backend ''order-0001'' ''t0'' sample_item ?at) @ later"
    by blast
  from p have pv: "p = \<lparr>pd_stock_quantity = 6, pd_is_available = True,
                        pd_seller_id = Some ''seller-42'', pd_name = ''Mug''\<rparr>"
    unfolding line_id stock by simp
  have s: "stockOf ''p1'' (decrementStock sample_backend ''order-0001'' ''t0'' sample_item ?at)
          = Some 4"
    using s0 unfolding pv line_id qty by simp
  have c: "rpc_calls (decrementStock sample_backend ''order-0001'' ''t0'' sample_item ?at)
          = [Low_stock (Some ''seller-42'') ''Mug'' ''p1'' 4 5 ''order-0001'']"
    using c0 unfolding pv line_id qty none by simp
  have "take 1 (rpc_calls (snd ?run))
          = [Low_stock (Some ''seller-42'') ''Mug'' ''p1'' 4 5 ''order-0001'']"
    using l c by simp
  moreover have "stockOf ''p1'' ?at = Some 6"
    unfolding stockOf_def stock by simp
  ultimately show ?thesis
    using placed dec reached none s c by simp
qed

section \<open>Order totals\<close>

lemma handleSubmit_cod:
  assumes "missingShippingField (shippingInfo co) = None" and "selectedItems cart \<noteq> []"
    and "paymentMethod co = Cod"
  shows "handleSubmit be now today co cart d =
           (case createOrder_orderService be now (submittedOrderData today co cart)
                   (Some (selectedItems cart)) d of
              (Inl e, d') \<Rightarrow> (Order_failed e, cart, d')
            | (Inr orderId, d') \<Rightarrow> (Order_placed orderId, clearCart cart, d'))"
  using assms by (simp add: handleSubmit_def)

lemma handleSubmit_placed:
  assumes "handleSubmit be now today co cart d = (Order_placed (Some oid), cart', d')"
  shows "createOrder_orderService be now (submittedOrderData today co cart)
           (Some (selectedItems cart)) d = (Inr (Some oid), d')"
proof -
  from assms have valid: "missingShippingField (shippingInfo co) = None"
    by (cases "missingShippingField (shippingInfo co)") (simp_all add: handleSubmit_def)
  from assms valid have some: "selectedItems cart \<noteq> []"
    by (auto simp: handleSubmit_def)
  from assms valid some have cod: "paymentMethod co = Cod"
    by (cases "paymentMethod co") (auto simp: handleSubmit_def split: if_splits)
  from assms show ?thesis
    unfolding handleSubmit_cod [OF valid some cod]
    by (cases "createOrder_orderService be now (submittedOrderData today co cart)
                 (Some (selectedItems cart)) d")
       (auto split: sum.splits)
qed

lemma onPaymentSuccess_placed:
  assumes "onPaymentSuccess be now today intent co cart d = (Order_placed (Some oid), cart', d')"
  shows "createOrder_orderService be now (paidOrderData today intent co cart)
           (Some (selectedItems cart)) d = (Inr (Some oid), d')"
  using assms
  by (cases "createOrder_orderService be now (paidOrderData today intent co cart)
               (Some (selectedItems cart)) d")
     (auto simp: onPaymentSuccess_def split: sum.splits option.splits)

lemma placed_order_total:
  assumes od: "od_total_amount orderData = Some (totalWithShipping cart co)"
    and run: "createOrder_orderService be now orderData (Some (selectedItems cart)) d
       = (Inr (Some oid), d')"
    and ok: "be_insert_order_items be = Succeeds"
  shows "\<exists>row. orders d' = orders d @ [row] \<and> o_id row = oid
           \<and> order_items d' = order_items d @ orderItemsFor oid (selectedItems cart)
           \<and> o_total_amount row
               = sum_list (map oi_total_price (orderItemsFor oid (selectedItems cart)))
                 + selectedDeliveryFee (selectedDeliveryOption co)"
proof -
  from run obtain user_id row where
    v: "validatedOrderData user_id now orderData = Inr row"
    and rows: "orders d' = orders d @ [row\<lparr>o_id := oid\<rparr>]"
    and its: "order_items d' = order_items d @
       (case Some (selectedItems cart) of
          None \<Rightarrow> []
        | Some cart \<Rightarrow> if be_insert_order_items be = Succeeds then orderItemsFor oid cart else [])"
    by (rule createOrder_orderService_rows)
  from validatedOrderData_row(2) [OF v] od
  have "o_total_amount row = totalWithShipping cart co" by simp
  then have "o_total_amount (row\<lparr>o_id := oid\<rparr>)
      = sum_list (map oi_total_price (orderItemsFor oid (selectedItems cart)))
        + selectedDeliveryFee (selectedDeliveryOption co)"
    by (simp add: totalWithShipping_def selectedItemsTotal_def subtotal_sum_list
          orderItemsFor_prices)
  with rows its ok show ?thesis by simp
qed


lemma sample_checkout_valid:
  "missingShippingField (shippingInfo (sample_checkout method option)) = None"
  "paymentMethod (sample_checkout method option) = method"
  "selectedDeliveryOption (sample_checkout method option) = option"
  by (simp_all add: sample_checkout_def missingShippingField_def)

lemma sample_total:
  "totalWithShipping sample_cart (sample_checkout method ''maxim'') = 1150"
  by (simp add: totalWithShipping_def selectedItemsTotal_def sample_selected sample_subtotal
        sample_checkout_valid selectedDeliveryFee_table)

text \<open>The sample checkout, paid on delivery, on a backend that differs from the sample
  one at most in how it answers the insert of the order items.\<close>

lemma sample_checkout_placed:
  assumes be: "be = sample_backend\<lparr>be_insert_order_items := oc\<rparr>" and oc: "\<not> throws oc"
  shows "handleSubmit be now today (sample_checkout Cod option) sample_cart (sample_db stock)
         = (Order_placed (Some ''order-0001''), clearCart sample_cart,
            snd (snd (handleSubmit be now today (sample_checkout Cod option) sample_cart
                        (sample_db stock))))"
proof -
  let ?od = "submittedOrderData today (sample_checkout Cod option) sample_cart"
  have facts: "be_getUser be = Resolved (Some ''u1'') None" "be_insert_order be = Succeeds"
    "be_new_order_id be = ''order-0001''" "be_insert_order_items be = oc"
    by (simp_all add: be sample_backend_def)
  have "\<exists>row. validatedOrderData ''u1'' now ?od = Inr row"
    by (simp add: validatedOrderData_def submittedOrderData_def sample_checkout_def
          formattedAddress_def)
  then obtain row where row: "validatedOrderData ''u1'' now ?od = Inr row" ..
  from createOrder_orderService_succeeds
         [where cartItems = "Some (selectedItems sample_cart)" and d = "sample_db stock",
          OF facts(1) row facts(2)] oc
  obtain d' where "createOrder_orderService be now ?od (Some (selectedItems sample_cart))
                     (sample_db stock) = (Inr (Some ''order-0001''), d')"
    by (simp add: facts)
  then have "handleSubmit be now today (sample_checkout Cod option) sample_cart (sample_db stock)
      = (Order_placed (Some ''order-0001''), clearCart sample_cart, d')"
    by (simp add: handleSubmit_cod sample_checkout_valid sample_selected)
  then show ?thesis by simp
qed


text \<open>
  C1. Claimed: the total of every successfully placed order is the sum of the total prices
  of its order items plus the fee of the selected delivery option. \<open>createOrder\<close> only
  reports a refused insert of the order items on the console and still returns the order
  id, which the checkout announces as an order placed: with a backend that refuses the
  items of the sample order (one line, price 500, quantity 2, delivery fee 150), the
  order is placed with a total of 1150 and has no order items.
\<close>

theorem order_without_items_keeps_total:
  "fst (handleSubmit (sample_backend\<lparr>be_insert_order_items := Fails ''denied''\<rparr>) ''t0'' 1
          (sample_checkout Cod ''maxim'') sample_cart (sample_db 10))
     = Order_placed (Some ''order-0001'')
   \<and> map o_total_amount
        (orders (snd (snd (handleSubmit (sample_backend\<lparr>be_insert_order_items := Fails ''denied''\<rparr>)
           ''t0'' 1 (sample_checkout Cod ''maxim'') sample_cart (sample_db 10))))) = [1150]
   \<and> order_items
        (snd (snd (handleSubmit (sample_backend\<lparr>be_insert_order_items := Fails ''denied''\<rparr>)
           ''t0'' 1 (sample_checkout Cod ''maxim'') sample_cart (sample_db 10)))) = []
   \<and> selectedDeliveryFee (selectedDeliveryOption (sample_checkout Cod ''maxim'')) = 150"
proof -
  let ?be = "sample_backend\<lparr>be_insert_order_items := Fails ''denied''\<rparr>"
  let ?run = "handleSubmit ?be ''t0'' 1 (sample_checkout Cod ''maxim'') sample_cart (sample_db 10)"
  have run: "?run = (Order_placed (Some ''order-0001''), clearCart sample_cart, snd (snd ?run))"
    by (rule sample_checkout_placed [OF refl]) simp
  from createOrder_orderService_rows [OF handleSubmit_placed [OF run]]
  obtain user_id row where
    v: "validatedOrderData user_id ''t0''
          (submittedOrderData 1 (sample_checkout Cod ''maxim'') sample_cart) = Inr row"
    and rows: "orders (snd (snd ?run)) = orders (sample_db 10) @ [row\<lparr>o_id := ''order-0001''\<rparr>]"
    and its: "order_items (snd (snd ?run)) = order_items (sample_db 10) @
       (case Some (selectedItems sample_cart) of
          None \<Rightarrow> []
        | Some cart \<Rightarrow> if be_insert_order_items ?be = Succeeds
                       then orderItemsFor ''order-0001'' cart else [])"
    by blast
  from validatedOrderData_row(2) [OF v] have "o_total_amount row = 1150"
    by (simp add: submittedOrderData_def sample_total)
  moreover have "fst ?run = Order_placed (Some ''order-0001'')"
    using run by (metis fst_conv)
  moreover have "orders (sample_db 10) = []" and "order_items (sample_db 10) = []"
    by (simp_all add: sample_db_def)
  ultimately show ?thesis
    using rows its by (simp add: sample_checkout_valid selectedDeliveryFee_table)
qed

text \<open>
  C1, as the code has it. For every order the checkout places (paid on delivery through
  \<open>handleSubmit\<close>, or by card through \<open>onPaymentSuccess\<close>) whose order items the backend
  accepts, the order's items are one row per selected cart line, each with a total price
  of unit price times quantity, and the order's total is the sum of these total prices plus
  the fee of the selected delivery option. One line of price 500 and quantity 2 with a
  delivery fee of 150 gives a total of 1150.
\<close>

theorem order_total_is_items_plus_delivery_fee:
  assumes "handleSubmit be now today co cart d = (Order_placed (Some oid), cart', d')
           \<or> onPaymentSuccess be now today intent co cart d
               = (Order_placed (Some oid), cart', d')"
    and "be_insert_order_items be = Succeeds"
  shows "\<exists>row. orders d' = orders d @ [row] \<and> o_id row = oid
           \<and> order_items d' = order_items d @ orderItemsFor oid (selectedItems cart)
           \<and> map oi_order_id (orderItemsFor oid (selectedItems cart))
               = map (\<lambda>item. oid) (selectedItems cart)
           \<and> map oi_total_price (orderItemsFor oid (selectedItems cart))
               = map (\<lambda>item. ci_price item * ci_quantity item) (selectedItems cart)
           \<and> o_total_amount row
               = sum_list (map oi_total_price (orderItemsFor oid (selectedItems cart)))
                 + selectedDeliveryFee (selectedDeliveryOption co)"
proof -
  from assms(1) obtain orderData where
    "od_total_amount orderData = Some (totalWithShipping cart co)"
    "createOrder_orderService be now orderData (Some (selectedItems cart)) d
       = (Inr (Some oid), d')"
  proof
    assume "handleSubmit be now today co cart d = (Order_placed (Some oid), cart', d')"
    from handleSubmit_placed [OF this] show ?thesis
      by (intro that [of "submittedOrderData today co cart"])
         (simp_all add: submittedOrderData_def)
  next
    assume "onPaymentSuccess be now today intent co cart d
              = (Order_placed (Some oid), cart', d')"
    from onPaymentSuccess_placed [OF this] show ?thesis
      by (intro that [of "paidOrderData today intent co cart"])
         (simp_all add: paidOrderData_def)
  qed
  from placed_order_total [OF this assms(2)] show ?thesis
    by (simp add: orderItemsFor_def)
qed

theorem order_total_is_items_plus_delivery_fee_witness:
  "(handleSubmit sample_backend ''t0'' 1 (sample_checkout Cod ''maxim'') sample_cart (sample_db 10)
      = (Order_placed (Some ''order-0001''), clearCart sample_cart,
         snd (snd (handleSubmit sample_backend ''t0'' 1 (sample_checkout Cod ''maxim'')
                     sample_cart (sample_db 10)))))
   \<and> be_insert_order_items sample_backend = Succeeds
   \<and> selectedDeliveryFee (selectedDeliveryOption (sample_checkout Cod ''maxim'')) = 150
   \<and> map o_total_amount
        (orders (snd (snd (handleSubmit sample_backend ''t0'' 1 (sample_checkout Cod ''maxim'')
                             sample_cart (sample_db 10))))) = [1150]
   \<and> order_items
        (snd (snd (handleSubmit sample_backend ''t0'' 1 (sample_checkout Cod ''maxim'')
                     sample_cart (sample_db 10))))
       = [\<lparr>oi_order_id = ''order-0001'', oi_product_id = ''p1'', oi_quantity = 2,
           oi_unit_price = 500, oi_total_price = 1000\<rparr>]"
proof -
  let ?run = "handleSubmit sample_backend ''t0'' 1 (sample_checkout Cod ''maxim'') sample_cart
                (sample_db 10)"
  have be: "sample_backend = sample_backend\<lparr>be_insert_order_items := Succeeds\<rparr>"
    by (simp add: sample_backend_def)
  have run: "?run = (Order_placed (Some ''order-0001''), clearCart sample_cart, snd (snd ?run))"
    by (rule sample_checkout_placed [OF be]) simp
  have ok: "be_insert_order_items sample_backend = Succeeds"
    by (simp add: sample_backend_def)
  from order_total_is_items_plus_delivery_fee [OF disjI1 [OF run] ok]
  have "map o_total_amount (orders (snd (snd ?run))) = [1150]"
    and "order_items (snd (snd ?run))
         = [\<lparr>oi_order_id = ''order-0001'', oi_product_id = ''p1'', oi_quantity = 2,
             oi_unit_price = 500, oi_total_price = 1000\<rparr>]"
    by (auto simp: sample_selected sample_checkout_valid selectedDeliveryFee_table
          orderItemsFor_def sample_item_def sample_db_def)
  then show ?thesis
    using run ok by (simp add: sample_checkout_valid selectedDeliveryFee_table)
qed

section \<open>The cart service\<close>

lemma updateOrCreateSellerCustomerRelationship_frame:
  "orders (snd (updateOrCreateSellerCustomerRelationship be now s c t d)) = orders d"
  "order_items (snd (updateOrCreateSellerCustomerRelationship be now s c t d)) = order_items d"
  "products (snd (updateOrCreateSellerCustomerRelationship be now s c t d)) = products d"
  "inventory_logs (snd (updateOrCreateSellerCustomerRelationship be now s c t d))
     = inventory_logs d"
  by (simp_all add: updateOrCreateSellerCustomerRelationship_def
        split: reply.splits outcome.splits option.splits)

lemma recordRelationship_frame:
  "orders (recordRelationship be now s u t d) = orders d"
  "order_items (recordRelationship be now s u t d) = order_items d"
  "products (recordRelationship be now s u t d) = products d"
  "inventory_logs (recordRelationship be now s u t d) = inventory_logs d"
  by (simp_all add: recordRelationship_def updateOrCreateSellerCustomerRelationship_frame
        split: reply.splits option.splits)

lemma createOrder_cartService_succeeds:
  assumes "be_getUser be = Resolved (Some user_id) None" and "cartItems \<noteq> []"
    and "be_insert_order be = Succeeds" and "be_insert_order_items be = Succeeds"
  shows "createOrder_cartService be now cartItems sa ba method d =
           (Inr ((cartOrderData user_id now cartItems sa ba method)\<lparr>o_id := be_new_order_id be\<rparr>),
            (case firstSeller cartItems of
               None \<Rightarrow> (\<lambda>d2. d2)
             | Some seller \<Rightarrow>
                 if validSeller (Some seller)
                 then recordRelationship be now seller user_id (subtotal cartItems + 150)
                 else (\<lambda>d2. d2))
              (d\<lparr>orders := orders d @
                    [(cartOrderData user_id now cartItems sa ba method)
                       \<lparr>o_id := be_new_order_id be\<rparr>],
                 order_items := order_items d @ orderItemsFor (be_new_order_id be) cartItems\<rparr>))"
  using assms
  by (simp add: createOrder_cartService_def insert_order_def insert_order_items_def
        answer_def applied_def split: option.splits)

lemma createOrder_cartService_placed:
  assumes "createOrder_cartService be now cartItems sa ba method d = (Inr order, d')"
  obtains user_id where "be_getUser be = Resolved (Some user_id) None" "cartItems \<noteq> []"
    "be_insert_order be = Succeeds" "be_insert_order_items be = Succeeds"
proof (cases "be_getUser be")
  case (Rejected e)
  with assms show ?thesis by (simp add: createOrder_cartService_def)
next
  case (Resolved user userError)
  show ?thesis
  proof (cases "if userError = None then user else None")
    case None
    with assms Resolved show ?thesis by (simp add: createOrder_cartService_def)
  next
    case (Some user_id)
    then have u: "be_getUser be = Resolved (Some user_id) None"
      using Resolved by (simp split: if_splits)
    from assms Resolved Some have ne: "cartItems \<noteq> []"
      by (auto simp: createOrder_cartService_def)
    have ins: "be_insert_order be = Succeeds"
      using assms Resolved Some ne
      by (cases "be_insert_order be")
         (simp_all add: createOrder_cartService_def insert_order_def answer_def applied_def)
    have "be_insert_order_items be = Succeeds"
      using assms Resolved Some ne ins
      by (cases "be_insert_order_items be")
         (simp_all add: createOrder_cartService_def insert_order_def insert_order_items_def
            answer_def applied_def)
    with u ne ins show ?thesis using that by blast
  qed
qed

lemma cartOrderData_fields:
  "o_status (cartOrderData user_id now cartItems sa ba method) = Processing"
  "o_payment_status (cartOrderData user_id now cartItems sa ba method)
     = Some (if method = ''stripe'' then ''pending'' else ''awaiting_payment'')"
  "o_seller_id (cartOrderData user_id now cartItems sa ba method)
     = (if validSeller (firstSeller cartItems) then firstSeller cartItems else None)"
  "o_total_amount (cartOrderData user_id now cartItems sa ba method) = subtotal cartItems + 150"
  "o_buyer_id (cartOrderData user_id now cartItems sa ba method) = user_id"
  by (simp_all add: cartOrderData_def Let_def)

lemma createOrder_cartService_rows:
  assumes "createOrder_cartService be now cartItems sa ba method d = (Inr order, d')"
  shows "orders d' = orders d @ [order]"
    and "order_items d' = order_items d @ orderItemsFor (o_id order) cartItems"
    and "o_id order = be_new_order_id be"
    and "o_status order = Processing"
    and "o_payment_status order
           = Some (if method = ''stripe'' then ''pending'' else ''awaiting_payment'')"
proof -
  from assms obtain user_id where
    facts: "be_getUser be = Resolved (Some user_id) None" "cartItems \<noteq> []"
    "be_insert_order be = Succeeds" "be_insert_order_items be = Succeeds"
    by (rule createOrder_cartService_placed)
  note run = assms [unfolded createOrder_cartService_succeeds [OF facts]]
  from run have order: "order = (cartOrderData user_id now cartItems sa ba method)
                                  \<lparr>o_id := be_new_order_id be\<rparr>"
    by simp
  show "o_id order = be_new_order_id be" by (simp add: order)
  show "o_status order = Processing" by (simp add: order cartOrderData_fields)
  show "o_payment_status order
           = Some (if method = ''stripe'' then ''pending'' else ''awaiting_payment'')"
    by (simp add: order cartOrderData_fields)
  from run show "orders d' = orders d @ [order]"
    by (cases "firstSeller cartItems")
       (auto simp: order recordRelationship_frame split: if_splits)
  from run show "order_items d' = order_items d @ orderItemsFor (o_id order) cartItems"
    by (cases "firstSeller cartItems")
       (auto simp: order recordRelationship_frame split: if_splits)
qed

lemma createOrder_orderService_no_cart:
  assumes "cartItems = None \<or> cartItems = Some []"
  shows "order_items (snd (createOrder_orderService be now orderData cartItems d)) = order_items d
         \<and> products (snd (createOrder_orderService be now orderData cartItems d)) = products d
         \<and> inventory_logs (snd (createOrder_orderService be now orderData cartItems d))
             = inventory_logs d"
proof (cases "be_getUser be")
  case (Rejected e)
  then show ?thesis by (simp add: createOrder_orderService_def)
next
  case (Resolved user userError)
  show ?thesis
  proof (cases user)
    case None
    with Resolved show ?thesis by (simp add: createOrder_orderService_def)
  next
    case (Some user_id)
    show ?thesis
    proof (cases "validatedOrderData user_id now orderData")
      case (Inl e)
      with Resolved Some show ?thesis by (simp add: createOrder_orderService_def)
    next
      case (Inr row)
      with Resolved Some assms show ?thesis
        by (cases "be_insert_order be")
           (auto simp: createOrder_orderService_def insert_order_def answer_def applied_def
              notifySeller_frame)
    qed
  qed
qed

lemma handleSubmit_nothing_selected:
  assumes "selectedItems cart = []"
  shows "handleSubmit be now today co cart d
         = ((case missingShippingField (shippingInfo co) of
               Some key \<Rightarrow> Shipping_missing key
             | None \<Rightarrow> No_items_selected), cart, d)"
  using assms by (simp add: handleSubmit_def split: option.splits)

lemma isValidUUID_samples:
  "isValidUUID ''123e4567-e89b-12d3-A456-426614174000''"
  "\<not> isValidUUID ''seller-42''"
  "\<not> isValidUUID ''123e4567-e89b-12d3-a456-42661417400g''"
  by (simp_all add: isValidUUID_def isHexDigit_def)

lemma sample_cartService_run:
  "createOrder_cartService sample_backend now [sample_item] sa ba method (sample_db stock)
   = (Inr ((cartOrderData ''u1'' now [sample_item] sa ba method)\<lparr>o_id := ''order-0001''\<rparr>),
      (sample_db stock)
        \<lparr>orders := [(cartOrderData ''u1'' now [sample_item] sa ba method)\<lparr>o_id := ''order-0001''\<rparr>],
         order_items := orderItemsFor ''order-0001'' [sample_item]\<rparr>)"
proof -
  have be: "be_getUser sample_backend = Resolved (Some ''u1'') None"
    "be_insert_order sample_backend = Succeeds" "be_insert_order_items sample_backend = Succeeds"
    "be_new_order_id sample_backend = ''order-0001''"
    by (simp_all add: sample_backend_def)
  have seller: "firstSeller [sample_item] = Some ''seller-42''"
    by (simp add: firstSeller_def sample_item_def)
  have invalid: "\<not> validSeller (Some ''seller-42'')"
    by (simp add: validSeller_def isValidUUID_samples)
  have empty: "orders (sample_db stock) = []" "order_items (sample_db stock) = []"
    by (simp_all add: sample_db_def)
  show ?thesis
    using createOrder_cartService_succeeds
            [where cartItems = "[sample_item]" and d = "sample_db stock" and now = now
               and sa = sa and ba = ba, OF be(1) _ be(2,3)]
    by (simp add: be(4) seller invalid empty)
qed


section \<open>Empty carts\<close>

text \<open>
  C3. Claimed: every call that places an order from an empty cart is rejected before any
  write. \<open>createOrder\<close> of the order service takes the cart items as an optional argument
  and has no such check: called for the sample order with an empty list of items, it
  inserts the order row and returns its id.
\<close>

theorem order_written_for_empty_cart:
  "fst (createOrder_orderService sample_backend ''t0'' sample_order (Some []) (sample_db 10))
     = Inr (Some ''order-0001'')
   \<and> orders (sample_db 10) = []
   \<and> map o_id (orders (snd (createOrder_orderService sample_backend ''t0'' sample_order (Some [])
                               (sample_db 10)))) = [''order-0001'']"
proof -
  have be: "be_getUser sample_backend = Resolved (Some ''u1'') None"
    "be_insert_order sample_backend = Succeeds" "be_new_order_id sample_backend = ''order-0001''"
    "be_insert_order_items sample_backend = Succeeds"
    by (simp_all add: sample_backend_def)
  have empty: "orders (sample_db 10) = []"
    by (simp add: sample_db_def)
  from createOrder_orderService_succeeds
         [where cartItems = "Some []" and d = "sample_db 10" and now = "''t0''",
          OF be(1) sample_validated be(2)]
  show ?thesis
    by (simp add: be empty notifySeller_frame)
qed

text \<open>
  C3, as the code has it. \<open>createOrder\<close> of the cart service throws for an empty cart and
  leaves every table as it is; \<open>handleSubmit\<close> of the checkout page stops with nothing
  selected (at the shipping form or at its own check of the items) and leaves the cart and
  every table as they are; \<open>createOrder\<close> of the order service, given no cart items,
  writes no order item, no stock and no inventory log entry, whatever else it does.
\<close>

theorem empty_cart_rejection:
  "(\<exists>e. createOrder_cartService be now [] shippingAddress billingAddress method d = (Inl e, d))
   \<and> (selectedItems cart = [] \<longrightarrow>
        (\<exists>r. handleSubmit be now today co cart d = (r, cart, d)
              \<and> (r = No_items_selected \<or> (\<exists>key. r = Shipping_missing key))))
   \<and> (cartItems = None \<or> cartItems = Some [] \<longrightarrow>
        order_items (snd (createOrder_orderService be now orderData cartItems d)) = order_items d
        \<and> products (snd (createOrder_orderService be now orderData cartItems d)) = products d
        \<and> inventory_logs (snd (createOrder_orderService be now orderData cartItems d))
            = inventory_logs d)"
proof -
  have "\<exists>e. createOrder_cartService be now [] shippingAddress billingAddress method d = (Inl e, d)"
    by (simp add: createOrder_cartService_def split: reply.splits option.splits)
  moreover have "\<exists>r. handleSubmit be now today co cart d = (r, cart, d)
              \<and> (r = No_items_selected \<or> (\<exists>key. r = Shipping_missing key))"
    if "selectedItems cart = []"
    by (cases "missingShippingField (shippingInfo co)")
       (simp_all add: handleSubmit_nothing_selected [OF that])
  ultimately show ?thesis
    using createOrder_orderService_no_cart [of cartItems be now orderData d] by blast
qed

theorem empty_cart_rejection_witness:
  "selectedItems (clearCart sample_cart) = []
   \<and> createOrder_cartService sample_backend ''t0'' [] ''home'' ''home'' ''cod'' (sample_db 10)
       = (Inl ''Your cart is empty. Please add items before checkout.'', sample_db 10)
   \<and> handleSubmit sample_backend ''t0'' 1 (sample_checkout Cod ''maxim'') (clearCart sample_cart)
        (sample_db 10) = (No_items_selected, clearCart sample_cart, sample_db 10)
   \<and> order_items (snd (createOrder_orderService sample_backend ''t0'' sample_order (Some [])
                          (sample_db 10))) = []
   \<and> inventory_logs (snd (createOrder_orderService sample_backend ''t0'' sample_order (Some [])
                             (sample_db 10))) = []"
proof -
  have sel: "selectedItems (clearCart sample_cart) = []"
    by (simp add: selectedItems_def clearCart_def)
  have empty: "order_items (sample_db 10) = []" "inventory_logs (sample_db 10) = []"
    by (simp_all add: sample_db_def)
  have cart: "createOrder_cartService sample_backend ''t0'' [] ''home'' ''home'' ''cod''
                (sample_db 10)
       = (Inl ''Your cart is empty. Please add items before checkout.'', sample_db 10)"
    by (simp add: createOrder_cartService_def sample_backend_def)
  have page: "handleSubmit sample_backend ''t0'' 1 (sample_checkout Cod ''maxim'')
                (clearCart sample_cart) (sample_db 10)
       = (No_items_selected, clearCart sample_cart, sample_db 10)"
    by (simp add: handleSubmit_nothing_selected [OF sel] sample_checkout_valid)
  from empty_cart_rejection
         [where cartItems = "Some []" and be = sample_backend and now = "''t0''"
            and orderData = sample_order and d = "sample_db 10"
            and cart = "clearCart sample_cart"]
  have "order_items (snd (createOrder_orderService sample_backend ''t0'' sample_order (Some [])
                          (sample_db 10))) = []"
    and "inventory_logs (snd (createOrder_orderService sample_backend ''t0'' sample_order (Some [])
                             (sample_db 10))) = []"
    by (simp_all add: empty)
  with sel cart page show ?thesis by simp
qed

section \<open>Initial status and payment status\<close>

text \<open>
  C5. Claimed: the order row an order writer inserts starts as \<open>pending\<close>. \<open>createOrder\<close> of
  the cart service inserts its row with status \<open>processing\<close>.
\<close>

theorem cart_service_starts_at_processing:
  "map_sum (\<lambda>e. e) o_status
     (fst (createOrder_cartService sample_backend ''t0'' [sample_item] ''home'' ''home'' ''cod''
             (sample_db 10))) = Inr Processing
   \<and> map o_status
        (orders (snd (createOrder_cartService sample_backend ''t0'' [sample_item] ''home'' ''home''
                        ''cod'' (sample_db 10)))) = [Processing]
   \<and> Processing \<noteq> Pending"
  by (simp add: sample_cartService_run cartOrderData_fields)

text \<open>
  C5, as the code has it. When \<open>createOrder\<close> of the order service returns an id, it is
  the id of the one order row added, that row has status \<open>pending\<close>, and its payment status
  follows from the payment method: \<open>pending\<close> for cash on delivery; for a card payment
  \<open>paid\<close> when the payment is reported as succeeded, else the payment status passed in,
  \<open>pending\<close> when there is none. When \<open>createOrder\<close> of the cart service returns, it
  returns the one order row added, which has the id the backend assigned, status
  \<open>processing\<close>, and payment status \<open>pending\<close> for a card payment and \<open>awaiting_payment\<close>
  otherwise.
\<close>

theorem order_writer_status_and_id:
  "(createOrder_orderService be now orderData cartItems d = (Inr (Some oid), d') \<longrightarrow>
      (\<exists>row. orders d' = orders d @ [row] \<and> o_id row = oid \<and> oid = be_new_order_id be
          \<and> o_status row = Pending
          \<and> o_payment_status row =
               (if od_payment_method orderData = Some ''stripe''
                then (if od_payment_status orderData = Some ''succeeded'' then Some ''paid''
                      else if truthy (od_payment_status orderData)
                           then od_payment_status orderData
                      else Some ''pending'')
                else if od_payment_method orderData = Some ''cod'' then Some ''pending''
                else if truthy (od_payment_status orderData) then od_payment_status orderData
                else Some ''pending'')))
   \<and> (createOrder_cartService be now cart shippingAddress billingAddress method d
        = (Inr order, d'') \<longrightarrow>
      orders d'' = orders d @ [order] \<and> o_id order = be_new_order_id be
      \<and> o_status order = Processing
      \<and> o_payment_status order
          = Some (if method = ''stripe'' then ''pending'' else ''awaiting_payment''))"
proof -
  have "\<exists>row. orders d' = orders d @ [row] \<and> o_id row = oid \<and> oid = be_new_order_id be
          \<and> o_status row = Pending
          \<and> o_payment_status row =
               (if od_payment_method orderData = Some ''stripe''
                then (if od_payment_status orderData = Some ''succeeded'' then Some ''paid''
                      else if truthy (od_payment_status orderData)
                           then od_payment_status orderData
                      else Some ''pending'')
                else if od_payment_method orderData = Some ''cod'' then Some ''pending''
                else if truthy (od_payment_status orderData) then od_payment_status orderData
                else Some ''pending'')"
    if run: "createOrder_orderService be now orderData cartItems d = (Inr (Some oid), d')"
  proof -
    from run obtain user_id row where
      v: "validatedOrderData user_id now orderData = Inr row"
      and oid: "oid = be_new_order_id be"
      and rows: "orders d' = orders d @ [row\<lparr>o_id := oid\<rparr>]"
      by (rule createOrder_orderService_rows)
    have i: "o_id (row\<lparr>o_id := oid\<rparr>) = oid" by simp
    have s: "o_status (row\<lparr>o_id := oid\<rparr>) = Pending"
      by (simp add: validatedOrderData_row(1) [OF v])
    have p: "o_payment_status (row\<lparr>o_id := oid\<rparr>) =
               (if od_payment_method orderData = Some ''stripe''
                then (if od_payment_status orderData = Some ''succeeded'' then Some ''paid''
                      else if truthy (od_payment_status orderData)
                           then od_payment_status orderData
                      else Some ''pending'')
                else if od_payment_method orderData = Some ''cod'' then Some ''pending''
                else if truthy (od_payment_status orderData) then od_payment_status orderData
                else Some ''pending'')"
      using validatedOrderData_payment_status [OF v] by simp
    from rows i oid s p show ?thesis by blast
  qed
  moreover have "orders d'' = orders d @ [order] \<and> o_id order = be_new_order_id be
      \<and> o_status order = Processing
      \<and> o_payment_status order
          = Some (if method = ''stripe'' then ''pending'' else ''awaiting_payment'')"
    if "createOrder_cartService be now cart shippingAddress billingAddress method d
          = (Inr order, d'')"
    using createOrder_cartService_rows [OF that] by blast
  ultimately show ?thesis by blast
qed

theorem order_writer_status_and_id_witness:
  "createOrder_orderService sample_backend ''t0'' sample_order (Some [sample_item]) (sample_db 10)
     = (Inr (Some ''order-0001''),
        snd (createOrder_orderService sample_backend ''t0'' sample_order (Some [sample_item])
               (sample_db 10)))
   \<and> be_new_order_id sample_backend = ''order-0001''
   \<and> od_payment_method sample_order = Some ''cod''
   \<and> map o_id
        (orders (snd (createOrder_orderService sample_backend ''t0'' sample_order
                        (Some [sample_item]) (sample_db 10)))) = [''order-0001'']
   \<and> map o_status
        (orders (snd (createOrder_orderService sample_backend ''t0'' sample_order
                        (Some [sample_item]) (sample_db 10)))) = [Pending]
   \<and> map o_payment_status
        (orders (snd (createOrder_orderService sample_backend ''t0'' sample_order
                        (Some [sample_item]) (sample_db 10)))) = [Some ''pending'']"
proof -
  let ?d' = "snd (createOrder_orderService sample_backend ''t0'' sample_order
                    (Some [sample_item]) (sample_db 10))"
  have be: "sample_backend = sample_backend\<lparr>be_insert_log := (\<lambda>i. Succeeds),
                                             be_select_product_name := (\<lambda>i. Succeeds)\<rparr>"
    by (simp add: sample_backend_def)
  note run = sample_order_placed(1) [where now = "''t0''" and stock = 10, OF be]
  have id: "be_new_order_id sample_backend = ''order-0001''"
    by (simp add: sample_backend_def)
  have cod: "od_payment_method sample_order = Some ''cod''"
    by (simp add: sample_order_def)
  have empty: "orders (sample_db 10) = []"
    by (simp add: sample_db_def)
  from order_writer_status_and_id
         [where be = sample_backend and now = "''t0''" and orderData = sample_order
            and cartItems = "Some [sample_item]" and d = "sample_db 10"
            and oid = "''order-0001''" and d' = ?d', THEN conjunct1, rule_format, OF run]
  obtain row where "orders ?d' = orders (sample_db 10) @ [row]" "o_id row = ''order-0001''"
    "o_status row = Pending" "o_payment_status row = Some ''pending''"
    using cod by auto
  with run id cod empty show ?thesis by simp
qed

section \<open>Seller attribution\<close>

text \<open>
  C6. When the seller id of the cart's first line is not a UUID, the cart service still
  creates the order: for a signed-in buyer with a cart that is not empty and a backend
  that accepts both inserts, \<open>createOrder\<close> returns the stored order, the order and its
  items are the only rows written, and the order row carries no seller id.
\<close>

theorem invalid_seller_order_without_attribution:
  assumes user: "be_getUser be = Resolved (Some user_id) None"
    and cart: "cartItems \<noteq> []"
    and invalid: "\<not> isValidUUID (ci_seller (hd cartItems))"
    and order_ok: "be_insert_order be = Succeeds"
    and items_ok: "be_insert_order_items be = Succeeds"
  shows "\<exists>order.
           createOrder_cartService be now cartItems shippingAddress billingAddress method d
             = (Inr order,
                d\<lparr>orders := orders d @ [order],
                  order_items := order_items d @ orderItemsFor (o_id order) cartItems\<rparr>)
           \<and> o_id order = be_new_order_id be
           \<and> o_buyer_id order = user_id
           \<and> o_seller_id order = None"
proof -
  from cart obtain item rest where items: "cartItems = item # rest"
    by (cases cartItems) auto
  with invalid have no: "\<not> validSeller (firstSeller cartItems)"
    by (simp add: validSeller_def firstSeller_def)
  let ?order = "(cartOrderData user_id now cartItems shippingAddress billingAddress method)
                  \<lparr>o_id := be_new_order_id be\<rparr>"
  have "createOrder_cartService be now cartItems shippingAddress billingAddress method d
          = (Inr ?order,
             d\<lparr>orders := orders d @ [?order],
               order_items := order_items d @ orderItemsFor (o_id ?order) cartItems\<rparr>)"
    using no
    by (cases "firstSeller cartItems")
       (simp_all add: createOrder_cartService_succeeds [OF user cart order_ok items_ok])
  moreover have "o_seller_id ?order = None"
    using no by (simp add: cartOrderData_fields)
  moreover have "o_id ?order = be_new_order_id be" and "o_buyer_id ?order = user_id"
    by (simp_all add: cartOrderData_fields)
  ultimately show ?thesis by blast
qed

theorem invalid_seller_order_without_attribution_witness:
  "be_getUser sample_backend = Resolved (Some ''u1'') None
   \<and> [sample_item] \<noteq> []
   \<and> ci_seller (hd [sample_item]) = ''seller-42''
   \<and> \<not> isValidUUID (ci_seller (hd [sample_item]))
   \<and> be_insert_order sample_backend = Succeeds
   \<and> be_insert_order_items sample_backend = Succeeds
   \<and> map_sum (\<lambda>e. e) o_seller_id
        (fst (createOrder_cartService sample_backend ''t0'' [sample_item] ''home'' ''home'' ''cod''
                (sample_db 10))) = Inr None
   \<and> map o_seller_id
        (orders (snd (createOrder_cartService sample_backend ''t0'' [sample_item] ''home'' ''home''
                        ''cod'' (sample_db 10)))) = [None]"
proof -
  have be: "be_getUser sample_backend = Resolved (Some ''u1'') None"
    "be_insert_order sample_backend = Succeeds" "be_insert_order_items sample_backend = Succeeds"
    by (simp_all add: sample_backend_def)
  have cart: "[sample_item] \<noteq> []" by simp
  have seller: "ci_seller (hd [sample_item]) = ''seller-42''"
    by (simp add: sample_item_def)
  have invalid: "\<not> isValidUUID (ci_seller (hd [sample_item]))"
    unfolding seller by (rule isValidUUID_samples)
  have empty: "orders (sample_db 10) = []"
    by (simp add: sample_db_def)
  from invalid_seller_order_without_attribution
         [where now = "''t0''" and shippingAddress = "''home''" and billingAddress = "''home''"
            and d = "sample_db 10", OF be(1) cart invalid be(2,3)]
  obtain order where
    "createOrder_cartService sample_backend ''t0'' [sample_item] ''home'' ''home'' ''cod''
       (sample_db 10)
     = (Inr order,
        (sample_db 10)\<lparr>orders := orders (sample_db 10) @ [order],
          order_items := order_items (sample_db 10) @ orderItemsFor (o_id order) [sample_item]\<rparr>)"
    and "o_seller_id order = None"
    by blast
  with be cart seller invalid empty show ?thesis by simp
qed

end
